theory Spec2Isabelle
  imports Main "HOL-Library.Word" "HOL-Library.Sublist"
begin

section \<open>Python values of a decoded API payload\<close>

text \<open>
  The constructors of \<^verbatim>\<open>tokage/abc.py\<close> receive the decoded JSON answer of the
  API as keyword arguments.  A decoded JSON document is a tree: null, booleans, integers,
  floats, strings, lists and objects with string keys, and no object occurs at two
  positions.  A float is kept as its IEEE-754 binary64 bit pattern; the code only passes
  floats along and tests them for truth.  A dict is an association list in insertion
  order, which is the order Python iterates it in.
\<close>

datatype pyval =
    PNone
  | PBool bool
  | PInt int
  | PFloat "64 word"
  | PStr string
  | PList "pyval list"
  | PDict "(string \<times> pyval) list"

type_synonym pydict = "(string \<times> pyval) list"

text \<open>The exceptions the constructors and their helpers can raise.\<close>

datatype error =
    TypeError
  | KeyError
  | ValueError
  | IndexError
  | AttributeError
  | MalformedReferenceError
  | UnknownEntityKindError

subsection \<open>Dict operations\<close>

text \<open>\<^verbatim>\<open>d.pop(key, None)\<close>: the value and the dict without the key, or None and the
  dict as it was.\<close>

definition pop :: "string \<Rightarrow> pydict \<Rightarrow> pyval \<times> pydict" where
  "pop k kwargs =
     (case map_of kwargs k of
        None \<Rightarrow> (PNone, kwargs)
      | Some v \<Rightarrow> (v, filter (\<lambda>e. fst e \<noteq> k) kwargs))"

text \<open>\<^verbatim>\<open>d[key] = v\<close> on a dict: an existing key keeps its position, a new key goes
  last.\<close>

fun dict_set :: "pydict \<Rightarrow> string \<Rightarrow> pyval \<Rightarrow> pydict" where
  "dict_set [] k v = [(k, v)]"
| "dict_set ((k', v') # d) k v =
     (if k' = k then (k, v) # d else (k', v') # dict_set d k v)"

text \<open>What a reader of the entity sees for a source key: the mapping's value, or None.\<close>

definition field :: "pydict \<Rightarrow> string \<Rightarrow> pyval" where
  "field kwargs k = (case map_of kwargs k of None \<Rightarrow> PNone | Some v \<Rightarrow> v)"

text \<open>The caller's payload after the object it holds under \<open>k\<close> has been mutated
  into \<open>v\<close>: the entry keeps its place; a payload without the key holds no such
  object.\<close>

fun store :: "pydict \<Rightarrow> string \<Rightarrow> pyval \<Rightarrow> pydict" where
  "store [] k v = []"
| "store ((k', v') # d) k v =
     (if k' = k then (k, v) # d else (k', v') # store d k v)"

subsection \<open>Strings\<close>

text \<open>\<^verbatim>\<open>s.find(sep)\<close>: the index of the first occurrence of \<open>sep\<close> in \<open>s\<close>.\<close>

fun find_first :: "string \<Rightarrow> string \<Rightarrow> nat option" where
  "find_first sep [] = (if sep = [] then Some 0 else None)"
| "find_first sep (c # cs) =
     (if take (length sep) (c # cs) = sep then Some 0
      else map_option Suc (find_first sep cs))"

text \<open>\<^verbatim>\<open>s.split(sep)\<close> for a non-empty separator: cut at the first occurrence, go on
  behind it.\<close>

function py_split :: "string \<Rightarrow> string \<Rightarrow> string list" where
  "py_split sep s =
     (case (if sep = [] then None else find_first sep s) of
        None \<Rightarrow> [s]
      | Some i \<Rightarrow> take i s # py_split sep (drop (i + length sep) s))"
  by pat_completeness auto
termination
proof (relation "measure (\<lambda>(sep, s). length s)")
  show "wf (measure (\<lambda>(sep, s). length s))" by simp
next
  fix sep s :: string and i :: nat
  assume a: "(if sep = [] then None else find_first sep s) = Some i"
  then have ne: "sep \<noteq> []" and f: "find_first sep s = Some i"
    by (auto split: if_splits)
  have "\<And>j. find_first sep s = Some j \<Longrightarrow> j + length sep \<le> length s"
  proof (induction s)
    case Nil
    then show ?case using ne by simp
  next
    case (Cons c cs)
    show ?case
    proof (cases "take (length sep) (c # cs) = sep")
      case True
      then have "length (take (length sep) (c # cs)) = length sep"
        by simp
      then have "length sep \<le> length (c # cs)"
        by (simp del: take_Suc_Cons)
      with True Cons.prems show ?thesis by simp
    next
      case False
      with Cons.prems obtain j' where "find_first sep cs = Some j'" "j = Suc j'"
        by auto
      with Cons.IH show ?thesis by simp
    qed
  qed
  from this [OF f] ne
  show "((sep, drop (i + length sep) s), (sep, s)) \<in> measure (\<lambda>(sep, s). length s)"
    by (cases sep) auto
qed

declare py_split.simps [simp del]

subsection \<open>Operators on arbitrary values\<close>

text \<open>\<^verbatim>\<open>bool(v)\<close>; the two float zeros are the patterns 0 and sign bit only.\<close>

definition truthy :: "pyval \<Rightarrow> bool" where
  "truthy v =
     (case v of
        PNone \<Rightarrow> False
      | PBool b \<Rightarrow> b
      | PInt n \<Rightarrow> n \<noteq> 0
      | PFloat w \<Rightarrow> w \<noteq> 0 \<and> w \<noteq> push_bit 63 1
      | PStr s \<Rightarrow> s \<noteq> []
      | PList xs \<Rightarrow> xs \<noteq> []
      | PDict d \<Rightarrow> d \<noteq> [])"

text \<open>\<^verbatim>\<open>s in v\<close> for a string \<open>s\<close>: substring of a string, element of a list, key
  of a dict; anything else is not iterable.\<close>

definition str_in :: "string \<Rightarrow> pyval \<Rightarrow> error + bool" where
  "str_in s v =
     (case v of
        PStr t \<Rightarrow> Inr (find_first s t \<noteq> None)
      | PList xs \<Rightarrow> Inr (PStr s \<in> set xs)
      | PDict d \<Rightarrow> Inr (map_of d s \<noteq> None)
      | _ \<Rightarrow> Inl TypeError)"

text \<open>\<^verbatim>\<open>for x in v\<close>: the elements of a list, the characters of a string, the keys of a
  dict.\<close>

definition py_iter :: "pyval \<Rightarrow> error + pyval list" where
  "py_iter v =
     (case v of
        PList xs \<Rightarrow> Inr xs
      | PStr s \<Rightarrow> Inr (map (\<lambda>c. PStr [c]) s)
      | PDict d \<Rightarrow> Inr (map (\<lambda>e. PStr (fst e)) d)
      | _ \<Rightarrow> Inl TypeError)"

text \<open>\<^verbatim>\<open>v[k]\<close> for a string key \<open>k\<close>.\<close>

definition getitem_str :: "pyval \<Rightarrow> string \<Rightarrow> error + pyval" where
  "getitem_str v k =
     (case v of
        PDict d \<Rightarrow> (case map_of d k of None \<Rightarrow> Inl KeyError | Some x \<Rightarrow> Inr x)
      | _ \<Rightarrow> Inl TypeError)"

text \<open>\<^verbatim>\<open>v[k] = x\<close> for a string key \<open>k\<close>: the object after the assignment.\<close>

definition setitem_str :: "pyval \<Rightarrow> string \<Rightarrow> pyval \<Rightarrow> error + pyval" where
  "setitem_str v k x =
     (case v of
        PDict d \<Rightarrow> Inr (PDict (dict_set d k x))
      | _ \<Rightarrow> Inl TypeError)"

text \<open>\<^verbatim>\<open>v[0]\<close>; a dict of a payload has string keys only, so 0 is never one.\<close>

definition getitem_0 :: "pyval \<Rightarrow> error + pyval" where
  "getitem_0 v =
     (case v of
        PList xs \<Rightarrow> (case xs of [] \<Rightarrow> Inl IndexError | x # _ \<Rightarrow> Inr x)
      | PStr s \<Rightarrow> (case s of [] \<Rightarrow> Inl IndexError | c # _ \<Rightarrow> Inr (PStr [c]))
      | PDict d \<Rightarrow> Inl KeyError
      | _ \<Rightarrow> Inl TypeError)"

text \<open>The container after a loop over it has mutated its elements: a list holds the
  mutated elements; the characters of a string and the keys of a dict are never
  mutated (item assignment on them raises).\<close>

definition rebuild :: "pyval \<Rightarrow> pyval list \<Rightarrow> pyval" where
  "rebuild v xs = (case v of PList _ \<Rightarrow> PList xs | _ \<Rightarrow> v)"

section \<open>The helpers of the other modules\<close>

text \<open>
  \<^verbatim>\<open>parse_id\<close> and \<^verbatim>\<open>create_relation\<close> of \<^verbatim>\<open>tokage/utils.py\<close> and the
  constructors of the partial classes of \<^verbatim>\<open>tokage/partial.py\<close> are parameters of the
  model: functions of the object they are given that return a result or raise, without
  changing their argument.  \<open>'p\<close> is the type of the partial objects.
\<close>

record 'p helpers =
  parse_id :: "pyval \<Rightarrow> error + pyval"
  create_relation :: "pyval \<Rightarrow> error + 'p"
  PartialPerson_from_author :: "pyval \<Rightarrow> error + 'p"
  PartialAnime_from_character :: "pyval \<Rightarrow> error + 'p"
  PartialManga_from_character :: "pyval \<Rightarrow> error + 'p"

section \<open>The steps the constructors share\<close>

text \<open>The call \<^verbatim>\<open>C(id, **payload)\<close>: Python binds the new object to \<^verbatim>\<open>self\<close>
  and the ID to the second parameter, and collects the entries of the payload in a fresh
  dict \<^verbatim>\<open>kwargs\<close>.  A key of the payload that is the name of one of the parameters
  \<open>params\<close> raises TypeError (multiple values for the argument) before the body
  runs.\<close>

definition bind_kwargs :: "string list \<Rightarrow> pydict \<Rightarrow> error + pydict" where
  "bind_kwargs params payload =
     (if list_ex (\<lambda>k. map_of payload k \<noteq> None) params then Inl TypeError
      else Inr payload)"

text \<open>Lines 107 to 111 and 234 to 238: the start and the end of a date range.\<close>

definition date_range :: "pyval \<Rightarrow> error + (pyval \<times> pyval)" where
  "date_range t =
     (case str_in '' to '' t of
        Inl e \<Rightarrow> Inl e
      | Inr False \<Rightarrow> Inr (t, PNone)
      | Inr True \<Rightarrow>
          (case t of
             PStr s \<Rightarrow>
               (case py_split '' to '' s of
                  [a, b] \<Rightarrow> Inr (PStr a, PStr b)
                | _ \<Rightarrow> Inl ValueError)
           | _ \<Rightarrow> Inl AttributeError))"

text \<open>Lines 121 to 123 and 244 to 246: \<^verbatim>\<open>genre\<close>, and \<^verbatim>\<open>genres\<close> when that is
  None.\<close>

definition pop_genres :: "pydict \<Rightarrow> pyval \<times> pydict" where
  "pop_genres kwargs =
     (let (raw_genres, kwargs) = pop ''genre'' kwargs
      in if raw_genres = PNone then pop ''genres'' kwargs else (raw_genres, kwargs))"

text \<open>Lines 124 and 247: \<^verbatim>\<open>[g['name'] for g in raw] if raw else None\<close>.\<close>

fun names_of :: "pyval list \<Rightarrow> error + pyval list" where
  "names_of [] = Inr []"
| "names_of (g # gs) =
     (case getitem_str g ''name'' of
        Inl e \<Rightarrow> Inl e
      | Inr n \<Rightarrow> (case names_of gs of Inl e \<Rightarrow> Inl e | Inr ns \<Rightarrow> Inr (n # ns)))"

definition genre_names :: "pyval \<Rightarrow> error + pyval" where
  "genre_names raw_genres =
     (if truthy raw_genres then
        (case py_iter raw_genres of
           Inl e \<Rightarrow> Inl e
         | Inr gs \<Rightarrow> (case names_of gs of Inl e \<Rightarrow> Inl e | Inr ns \<Rightarrow> Inr (PList ns)))
      else Inr PNone)"

text \<open>A step that assigns into objects of the payload returns these objects as it
  leaves them, also when it raises: with the exception on the left, with its result on
  the right.\<close>

text \<open>Lines 138 to 141 and 260 to 263, the inner loop: each record gets its relation
  type, then the factory builds the reference.  The result is the records after the
  loop and the references in order.\<close>

fun relations_loop ::
  "'p helpers \<Rightarrow> string \<Rightarrow> pyval list \<Rightarrow> (error \<times> pyval list) + (pyval list \<times> 'p list)" where
  "relations_loop h relation_type [] = Inr ([], [])"
| "relations_loop h relation_type (relation # rest) =
     (case setitem_str relation ''relation'' (PStr relation_type) of
        Inl e \<Rightarrow> Inl (e, relation # rest)
      | Inr relation' \<Rightarrow>
          (case create_relation h relation' of
             Inl e \<Rightarrow> Inl (e, relation' # rest)
           | Inr obj \<Rightarrow>
               (case relations_loop h relation_type rest of
                  Inl (e, rest') \<Rightarrow> Inl (e, relation' # rest')
                | Inr (rest', objs) \<Rightarrow> Inr (relation' # rest', obj # objs))))"

text \<open>Lines 137 and 259, the outer loop over the items of the dict.\<close>

fun related_loop :: "'p helpers \<Rightarrow> pydict \<Rightarrow> (error \<times> pydict) + (pydict \<times> 'p list)" where
  "related_loop h [] = Inr ([], [])"
| "related_loop h ((relation_type, relations) # items) =
     (case py_iter relations of
        Inl e \<Rightarrow> Inl (e, (relation_type, relations) # items)
      | Inr rs \<Rightarrow>
          (case relations_loop h relation_type rs of
             Inl (e, rs') \<Rightarrow> Inl (e, (relation_type, rebuild relations rs') # items)
           | Inr (rs', objs) \<Rightarrow>
               (case related_loop h items of
                  Inl (e, items') \<Rightarrow>
                    Inl (e, (relation_type, rebuild relations rs') # items')
                | Inr (items', objs') \<Rightarrow>
                    Inr ((relation_type, rebuild relations rs') # items', objs @ objs'))))"

text \<open>\<^verbatim>\<open>self._raw_related.items()\<close> exists for a dict only.\<close>

definition build_related ::
  "'p helpers \<Rightarrow> pyval \<Rightarrow> (error \<times> pyval) + (pyval \<times> 'p list)" where
  "build_related h raw_related =
     (case raw_related of
        PDict d \<Rightarrow>
          (case related_loop h d of
             Inl (e, d') \<Rightarrow> Inl (e, PDict d')
           | Inr (d', objs) \<Rightarrow> Inr (PDict d', objs))
      | _ \<Rightarrow> Inl (AttributeError, raw_related))"

text \<open>Lines 240 to 242: the first author, its id, the person built from it.  The
  result is the author list and the record after the assignment, and the person.\<close>

definition put_0 :: "pyval \<Rightarrow> pyval \<Rightarrow> pyval" where
  "put_0 v x = (case v of PList (_ # rest) \<Rightarrow> PList (x # rest) | _ \<Rightarrow> v)"

definition resolve_author ::
  "'p helpers \<Rightarrow> pyval \<Rightarrow> (error \<times> pyval) + (pyval \<times> pyval \<times> 'p)" where
  "resolve_author h authors =
     (case getitem_0 authors of
        Inl e \<Rightarrow> Inl (e, authors)
      | Inr raw_author \<Rightarrow>
          (case getitem_str raw_author ''url'' of
             Inl e \<Rightarrow> Inl (e, authors)
           | Inr url \<Rightarrow>
               (case parse_id h url of
                  Inl e \<Rightarrow> Inl (e, authors)
                | Inr i \<Rightarrow>
                    (case setitem_str raw_author ''id'' i of
                       Inl e \<Rightarrow> Inl (e, authors)
                     | Inr raw_author' \<Rightarrow>
                         (case PartialPerson_from_author h raw_author' of
                            Inl e \<Rightarrow> Inl (e, put_0 authors raw_author')
                          | Inr obj \<Rightarrow> Inr (put_0 authors raw_author', raw_author', obj))))))"

text \<open>Lines 312 to 315 and 319 to 322: each record gets the id parsed from its url,
  then \<open>mk\<close> builds the reference.\<close>

fun enrich_loop ::
  "'p helpers \<Rightarrow> (pyval \<Rightarrow> error + 'p) \<Rightarrow> pyval list \<Rightarrow>
     (error \<times> pyval list) + (pyval list \<times> 'p list)" where
  "enrich_loop h mk [] = Inr ([], [])"
| "enrich_loop h mk (x # rest) =
     (case getitem_str x ''url'' of
        Inl e \<Rightarrow> Inl (e, x # rest)
      | Inr url \<Rightarrow>
          (case parse_id h url of
             Inl e \<Rightarrow> Inl (e, x # rest)
           | Inr i \<Rightarrow>
               (case setitem_str x ''id'' i of
                  Inl e \<Rightarrow> Inl (e, x # rest)
                | Inr x' \<Rightarrow>
                    (case mk x' of
                       Inl e \<Rightarrow> Inl (e, x' # rest)
                     | Inr obj \<Rightarrow>
                         (case enrich_loop h mk rest of
                            Inl (e, rest') \<Rightarrow> Inl (e, x' # rest')
                          | Inr (rest', objs) \<Rightarrow> Inr (x' # rest', obj # objs))))))"

definition enrich_all ::
  "'p helpers \<Rightarrow> (pyval \<Rightarrow> error + 'p) \<Rightarrow> pyval \<Rightarrow> (error \<times> pyval) + (pyval \<times> 'p list)" where
  "enrich_all h mk raw =
     (case py_iter raw of
        Inl e \<Rightarrow> Inl (e, raw)
      | Inr xs \<Rightarrow>
          (case enrich_loop h mk xs of
             Inl (e, xs') \<Rightarrow> Inl (e, rebuild raw xs')
           | Inr (xs', objs) \<Rightarrow> Inr (rebuild raw xs', objs)))"


section \<open>Anime\<close>

record 'p anime =
  a_id :: int
  a_title :: pyval
  a_type :: pyval
  a_synonyms :: pyval
  a_image :: pyval
  a_japanese_title :: pyval
  a_status :: pyval
  a_episodes :: pyval
  a_airing :: pyval
  a_air_time :: pyval
  a_air_start :: pyval
  a_air_end :: pyval
  a_premiered :: pyval
  a_broadcast :: pyval
  a_synopsis :: pyval
  a_producers :: pyval
  a_licensors :: pyval
  a_studios :: pyval
  a_source :: pyval
  a_raw_genres :: pyval
  a_genres :: pyval
  a_duration :: pyval
  a_link :: pyval
  a_rating :: pyval
  a_score :: pyval
  a_rank :: pyval
  a_popularity :: pyval
  a_members :: pyval
  a_favorites :: pyval
  a_related :: "'p list"
  a_raw_related :: pyval

text \<open>
  \<^verbatim>\<open>Anime.__init__(self, anime_id, **kwargs)\<close>, lines 95 to 141, called as
  \<^verbatim>\<open>Anime(anime_id, **payload)\<close>.  A constructor returns the entity together with the
  caller's payload as it is after the call: \<^verbatim>\<open>**kwargs\<close> is a fresh dict, so its pops
  never reach the caller's mapping, but the values in it are the caller's own objects,
  and the loop of lines 137 to 141 assigns into them.  The attributes
  \<^verbatim>\<open>_air_time\<close>, \<^verbatim>\<open>_raw_genres\<close> and \<^verbatim>\<open>_raw_related\<close> are \<open>a_air_time\<close>,
  \<open>a_raw_genres\<close> and \<open>a_raw_related\<close>; the last refers to the dict the loop has
  changed.  A construction that raises yields the exception together with the caller's
  payload as it is at the raise.
\<close>

definition Anime_init ::
  "'p helpers \<Rightarrow> int \<Rightarrow> pydict \<Rightarrow> (error \<times> pydict) + ('p anime \<times> pydict)" where
  "Anime_init h anime_id payload =
     (case bind_kwargs [''self'', ''anime_id''] payload of
        Inl e \<Rightarrow> Inl (e, payload)
      | Inr kwargs \<Rightarrow>
     (let (title, kwargs) = pop ''title'' kwargs;
          (typ, kwargs) = pop ''type'' kwargs;
          (synonyms, kwargs) = pop ''title_synonyms'' kwargs;
          (image, kwargs) = pop ''image_url'' kwargs;
          (japanese_title, kwargs) = pop ''title_japanese'' kwargs;
          (status, kwargs) = pop ''status'' kwargs;
          (episodes, kwargs) = pop ''episodes'' kwargs;
          (airing, kwargs) = pop ''airing'' kwargs;
          (air_time, kwargs) = pop ''aired_string'' kwargs
      in case date_range air_time of
           Inl e \<Rightarrow> Inl (e, payload)
         | Inr (air_start, air_end) \<Rightarrow>
     (let (premiered, kwargs) = pop ''premiered'' kwargs;
          (broadcast, kwargs) = pop ''broadcast'' kwargs;
          (synopsis, kwargs) = pop ''synopsis'' kwargs;
          (producers, kwargs) = pop ''producer'' kwargs;
          (licensors, kwargs) = pop ''licensor'' kwargs;
          (studios, kwargs) = pop ''studio'' kwargs;
          (source, kwargs) = pop ''source'' kwargs;
          (raw_genres, kwargs) = pop_genres kwargs
      in case genre_names raw_genres of
           Inl e \<Rightarrow> Inl (e, payload)
         | Inr genres \<Rightarrow>
     (let (duration, kwargs) = pop ''duration'' kwargs;
          (link, kwargs) = pop ''link_canonical'' kwargs;
          (rating, kwargs) = pop ''rating'' kwargs;
          (score, kwargs) = pop ''score'' kwargs;
          (rank, kwargs) = pop ''rank'' kwargs;
          (popularity, kwargs) = pop ''popularity'' kwargs;
          (members, kwargs) = pop ''members'' kwargs;
          (favorites, kwargs) = pop ''favorites'' kwargs;
          (raw_related, kwargs) = pop ''related'' kwargs
      in case build_related h raw_related of
           Inl (e, raw_related') \<Rightarrow> Inl (e, store payload ''related'' raw_related')
         | Inr (raw_related', related) \<Rightarrow>
             Inr (\<lparr>a_id = anime_id, a_title = title, a_type = typ, a_synonyms = synonyms,
                   a_image = image, a_japanese_title = japanese_title, a_status = status,
                   a_episodes = episodes, a_airing = airing, a_air_time = air_time,
                   a_air_start = air_start, a_air_end = air_end, a_premiered = premiered,
                   a_broadcast = broadcast, a_synopsis = synopsis, a_producers = producers,
                   a_licensors = licensors, a_studios = studios, a_source = source,
                   a_raw_genres = raw_genres, a_genres = genres, a_duration = duration,
                   a_link = link, a_rating = rating, a_score = score, a_rank = rank,
                   a_popularity = popularity, a_members = members, a_favorites = favorites,
                   a_related = related, a_raw_related = raw_related'\<rparr>,
                  store payload ''related'' raw_related')))))"

section \<open>Manga\<close>

record 'p manga =
  m_id :: int
  m_title :: pyval
  m_type :: pyval
  m_synonyms :: pyval
  m_image :: pyval
  m_japanese_title :: pyval
  m_status :: pyval
  m_volumes :: pyval
  m_chapters :: pyval
  m_publishing :: pyval
  m_synopsis :: pyval
  m_publish_time :: pyval
  m_publish_start :: pyval
  m_publish_end :: pyval
  m_raw_author :: pyval
  m_author :: 'p
  m_raw_genres :: pyval
  m_genres :: pyval
  m_serialization :: pyval
  m_link :: pyval
  m_score :: pyval
  m_rank :: pyval
  m_popularity :: pyval
  m_members :: pyval
  m_favorites :: pyval
  m_related :: "'p list"
  m_raw_related :: pyval

text \<open>
  \<^verbatim>\<open>Manga.__init__(self, manga_id, **kwargs)\<close>, lines 220 to 263, called as
  \<^verbatim>\<open>Manga(manga_id, **payload)\<close>.  Line 241 assigns into the first record of the
  caller's author list, the loop of lines 259 to 263 into the caller's relation
  records; what line 241 has assigned stays when a later line raises.
\<close>

definition Manga_init ::
  "'p helpers \<Rightarrow> int \<Rightarrow> pydict \<Rightarrow> (error \<times> pydict) + ('p manga \<times> pydict)" where
  "Manga_init h manga_id payload =
     (case bind_kwargs [''self'', ''manga_id''] payload of
        Inl e \<Rightarrow> Inl (e, payload)
      | Inr kwargs \<Rightarrow>
     (let (title, kwargs) = pop ''title'' kwargs;
          (typ, kwargs) = pop ''type'' kwargs;
          (synonyms, kwargs) = pop ''title_synonyms'' kwargs;
          (image, kwargs) = pop ''image_url'' kwargs;
          (japanese_title, kwargs) = pop ''title_japanese'' kwargs;
          (status, kwargs) = pop ''status'' kwargs;
          (volumes, kwargs) = pop ''volumes'' kwargs;
          (chapters, kwargs) = pop ''chapters'' kwargs;
          (publishing, kwargs) = pop ''publishing'' kwargs;
          (synopsis, kwargs) = pop ''synopsis'' kwargs;
          (publish_time, kwargs) = pop ''published_string'' kwargs
      in case date_range publish_time of
           Inl e \<Rightarrow> Inl (e, payload)
         | Inr (publish_start, publish_end) \<Rightarrow>
     (let (authors, kwargs) = pop ''author'' kwargs
      in case resolve_author h authors of
           Inl (e, authors') \<Rightarrow> Inl (e, store payload ''author'' authors')
         | Inr (authors', raw_author, author) \<Rightarrow>
     (let payload = store payload ''author'' authors';
          (raw_genres, kwargs) = pop_genres kwargs
      in case genre_names raw_genres of
           Inl e \<Rightarrow> Inl (e, payload)
         | Inr genres \<Rightarrow>
     (let (serializations, kwargs) = pop ''serialization'' kwargs
      in case getitem_0 serializations of
           Inl e \<Rightarrow> Inl (e, payload)
         | Inr serialization \<Rightarrow>
     (let (link, kwargs) = pop ''link_canonical'' kwargs;
          (score, kwargs) = pop ''score'' kwargs;
          (rank, kwargs) = pop ''rank'' kwargs;
          (popularity, kwargs) = pop ''popularity'' kwargs;
          (members, kwargs) = pop ''members'' kwargs;
          (favorites, kwargs) = pop ''favorites'' kwargs;
          (raw_related, kwargs) = pop ''related'' kwargs
      in case build_related h raw_related of
           Inl (e, raw_related') \<Rightarrow> Inl (e, store payload ''related'' raw_related')
         | Inr (raw_related', related) \<Rightarrow>
             Inr (\<lparr>m_id = manga_id, m_title = title, m_type = typ, m_synonyms = synonyms,
                   m_image = image, m_japanese_title = japanese_title, m_status = status,
                   m_volumes = volumes, m_chapters = chapters, m_publishing = publishing,
                   m_synopsis = synopsis, m_publish_time = publish_time,
                   m_publish_start = publish_start, m_publish_end = publish_end,
                   m_raw_author = raw_author, m_author = author,
                   m_raw_genres = raw_genres, m_genres = genres,
                   m_serialization = serialization, m_link = link, m_score = score,
                   m_rank = rank, m_popularity = popularity, m_members = members,
                   m_favorites = favorites, m_related = related,
                   m_raw_related = raw_related'\<rparr>,
                  store payload ''related'' raw_related')))))))"

section \<open>Character\<close>

record 'p character =
  c_id :: int
  c_link :: pyval
  c_name :: pyval
  c_image :: pyval
  c_favorites :: pyval
  c_animeography :: "'p list"
  c_raw_animeography :: pyval
  c_mangaography :: "'p list"
  c_raw_mangaography :: pyval
  c_japanese_name :: pyval
  c_about :: pyval
  c_voice_actors :: pyval

text \<open>
  \<^verbatim>\<open>Character.__init__(self, char_id, **kwargs)\<close>, lines 303 to 326, called as
  \<^verbatim>\<open>Character(char_id, **payload)\<close>.  Lines 313 and 320 assign into the caller's
  animeography and mangaography records.
\<close>

definition Character_init ::
  "'p helpers \<Rightarrow> int \<Rightarrow> pydict \<Rightarrow> (error \<times> pydict) + ('p character \<times> pydict)" where
  "Character_init h char_id payload =
     (case bind_kwargs [''self'', ''char_id''] payload of
        Inl e \<Rightarrow> Inl (e, payload)
      | Inr kwargs \<Rightarrow>
     (let (link, kwargs) = pop ''link_canonical'' kwargs;
          (name, kwargs) = pop ''name'' kwargs;
          (image, kwargs) = pop ''image_url'' kwargs;
          (favorites, kwargs) = pop ''member_favorites'' kwargs;
          (raw_animeography, kwargs) = pop ''animeography'' kwargs
      in case enrich_all h (PartialAnime_from_character h) raw_animeography of
           Inl (e, raw_animeography') \<Rightarrow>
             Inl (e, store payload ''animeography'' raw_animeography')
         | Inr (raw_animeography', animeography) \<Rightarrow>
     (let payload = store payload ''animeography'' raw_animeography';
          (raw_mangaography, kwargs) = pop ''mangaography'' kwargs
      in case enrich_all h (PartialManga_from_character h) raw_mangaography of
           Inl (e, raw_mangaography') \<Rightarrow>
             Inl (e, store payload ''mangaography'' raw_mangaography')
         | Inr (raw_mangaography', mangaography) \<Rightarrow>
     (let (japanese_name, kwargs) = pop ''name_kanji'' kwargs;
          (about, kwargs) = pop ''about'' kwargs;
          (voice_actors, kwargs) = pop ''voice_actors'' kwargs
      in Inr (\<lparr>c_id = char_id, c_link = link, c_name = name, c_image = image,
               c_favorites = favorites, c_animeography = animeography,
               c_raw_animeography = raw_animeography', c_mangaography = mangaography,
               c_raw_mangaography = raw_mangaography', c_japanese_name = japanese_name,
               c_about = about, c_voice_actors = voice_actors\<rparr>,
              store payload ''mangaography'' raw_mangaography')))))"

section \<open>Person\<close>

record person =
  p_id :: int
  p_link :: pyval
  p_name :: pyval
  p_image :: pyval
  p_favorites :: pyval
  p_anime :: pyval
  p_manga :: pyval
  p_birthday :: pyval
  p_more :: pyval
  p_website :: pyval
  p_voice_acting :: pyval

text \<open>
  \<^verbatim>\<open>Person.__init__(self, person_id, **kwargs)\<close>, lines 366 to 377, called as
  \<^verbatim>\<open>Person(person_id, **payload)\<close>.  The body assigns into no object of the payload
  and has no step that raises; the call itself raises when the payload has a key
  \<^verbatim>\<open>self\<close> or \<^verbatim>\<open>person_id\<close>.
\<close>

definition Person_init :: "int \<Rightarrow> pydict \<Rightarrow> (error \<times> pydict) + (person \<times> pydict)" where
  "Person_init person_id payload =
     (case bind_kwargs [''self'', ''person_id''] payload of
        Inl e \<Rightarrow> Inl (e, payload)
      | Inr kwargs \<Rightarrow>
     (let (link, kwargs) = pop ''link_canonical'' kwargs;
          (name, kwargs) = pop ''name'' kwargs;
          (image, kwargs) = pop ''image_url'' kwargs;
          (favorites, kwargs) = pop ''member_favorites'' kwargs;
          (anime, kwargs) = pop ''anime_staff_position'' kwargs;
          (manga, kwargs) = pop ''published_manga'' kwargs;
          (birthday, kwargs) = pop ''birthday'' kwargs;
          (more, kwargs) = pop ''more'' kwargs;
          (website, kwargs) = pop ''website'' kwargs;
          (voice_acting, kwargs) = pop ''voice_acting_role'' kwargs
      in Inr (\<lparr>p_id = person_id, p_link = link, p_name = name, p_image = image,
               p_favorites = favorites, p_anime = anime, p_manga = manga,
               p_birthday = birthday, p_more = more, p_website = website,
               p_voice_acting = voice_acting\<rparr>, payload)))"

section \<open>The helpers as the specification describes them\<close>

text \<open>Modelled from the spec: the partial classes of \<^verbatim>\<open>tokage/partial.py\<close> are not
  among the sources.  The specification calls a partial object a minimal stand-in, an
  Anime-, Manga- or Person-reference with an id, tagged with the relation type when it
  comes from a relation record.\<close>

datatype ref_kind = Anime_reference | Manga_reference | Person_reference

text \<open>Modelled from the spec: a partial object, with the fields the specification
  names (the kind of reference, the id, the relation type or None).\<close>

record partial =
  ref_kind :: ref_kind
  ref_id :: pyval
  ref_relation :: pyval

text \<open>Modelled from the spec: a numeric path segment (section 4.1) is a non-empty run of
  decimal digits, and its value is the identifier.\<close>

definition is_number :: "string \<Rightarrow> bool" where
  "is_number s = (s \<noteq> [] \<and> list_all (\<lambda>c. c \<in> set ''0123456789'') s)"

text \<open>Modelled from the spec: the integer a numeric path segment denotes.\<close>

definition number_value :: "string \<Rightarrow> int" where
  "number_value s = foldl (\<lambda>n c. 10 * n + (int (of_char c) - 48)) 0 s"

text \<open>Modelled from the spec: \<^verbatim>\<open>parse_id\<close> of \<^verbatim>\<open>tokage/utils.py\<close> is not among the
  sources.  Section 4.1: given a URL-like string, return the numeric identifier that is a
  component of its path; without a numeric path segment the parser fails with a
  MalformedReferenceError.  The segment taken is the first one made of digits only.\<close>

definition spec_parse_id :: "pyval \<Rightarrow> error + pyval" where
  "spec_parse_id v =
     (case v of
        PStr url \<Rightarrow>
          (case filter is_number (py_split ''/'' url) of
             [] \<Rightarrow> Inl MalformedReferenceError
           | seg # _ \<Rightarrow> Inr (PInt (number_value seg)))
      | _ \<Rightarrow> Inl MalformedReferenceError)"

text \<open>Modelled from the spec: \<^verbatim>\<open>create_relation\<close> of \<^verbatim>\<open>tokage/utils.py\<close> is not
  among the sources.  Section 4.2: given a relation record with a type discriminator,
  identifying fields and the relation label attached before, build an Anime-reference or
  a Manga-reference; an unrecognized discriminator fails with an UnknownEntityKindError.
  The id of a nested reference is parsed from its URL (section 3).\<close>

definition spec_create_relation :: "pyval \<Rightarrow> error + partial" where
  "spec_create_relation r =
     (case getitem_str r ''type'' of
        Inl e \<Rightarrow> Inl e
      | Inr t \<Rightarrow>
          if t = PStr ''anime'' \<or> t = PStr ''manga'' then
            (case getitem_str r ''url'' of
               Inl e \<Rightarrow> Inl e
             | Inr url \<Rightarrow>
                 (case spec_parse_id url of
                    Inl e \<Rightarrow> Inl e
                  | Inr i \<Rightarrow>
                      (case getitem_str r ''relation'' of
                         Inl e \<Rightarrow> Inl e
                       | Inr label \<Rightarrow>
                           Inr \<lparr>ref_kind =
                                  (if t = PStr ''anime'' then Anime_reference
                                   else Manga_reference),
                                ref_id = i, ref_relation = label\<rparr>)))
          else Inl UnknownEntityKindError)"

text \<open>Modelled from the spec: \<^verbatim>\<open>PartialAnime.from_character\<close>,
  \<^verbatim>\<open>PartialManga.from_character\<close> and \<^verbatim>\<open>PartialPerson.from_author\<close> of
  \<^verbatim>\<open>tokage/partial.py\<close> are not among the sources.  Section 4.3: the lightweight
  reference is built from the record enriched with its id.\<close>

definition spec_from_record :: "ref_kind \<Rightarrow> pyval \<Rightarrow> error + partial" where
  "spec_from_record k r =
     (case getitem_str r ''id'' of
        Inl e \<Rightarrow> Inl e
      | Inr i \<Rightarrow> Inr \<lparr>ref_kind = k, ref_id = i, ref_relation = PNone\<rparr>)"

text \<open>Modelled from the spec: the helpers of \<^verbatim>\<open>tokage/utils.py\<close> and
  \<^verbatim>\<open>tokage/partial.py\<close> together, as sections 4.1 to 4.3 describe them.\<close>

definition mal_helpers :: "partial helpers" where
  "mal_helpers =
     \<lparr>parse_id = spec_parse_id,
      create_relation = spec_create_relation,
      PartialPerson_from_author = spec_from_record Person_reference,
      PartialAnime_from_character = spec_from_record Anime_reference,
      PartialManga_from_character = spec_from_record Manga_reference\<rparr>"

section \<open>Notions the properties are stated with\<close>

text \<open>The value lines 121 to 123 select: \<^verbatim>\<open>genre\<close>, or \<^verbatim>\<open>genres\<close> when
  \<^verbatim>\<open>genre\<close> is missing or null.\<close>

definition selected_genres :: "pydict \<Rightarrow> pyval" where
  "selected_genres payload =
     (if field payload ''genre'' = PNone then field payload ''genres''
      else field payload ''genre'')"

text \<open>The elements of a list value; no other value holds records.\<close>

definition elements :: "pyval \<Rightarrow> pyval list" where
  "elements v = (case v of PList xs \<Rightarrow> xs | _ \<Rightarrow> [])"

text \<open>A mapping of relation type to list of records, flattened in order into the
  records with their relation type.\<close>

definition relation_records :: "pydict \<Rightarrow> (string \<times> pyval) list" where
  "relation_records rel = concat (map (\<lambda>(t, rs). map (Pair t) (elements rs)) rel)"

text \<open>A record with its relation type under \<^verbatim>\<open>relation\<close>; a record with the id
  parsed from its \<^verbatim>\<open>url\<close> under \<^verbatim>\<open>id\<close>.\<close>

definition with_relation :: "string \<Rightarrow> pyval \<Rightarrow> pyval" where
  "with_relation t r =
     (case r of PDict d \<Rightarrow> PDict (dict_set d ''relation'' (PStr t)) | _ \<Rightarrow> r)"

definition with_id :: "'p helpers \<Rightarrow> pyval \<Rightarrow> pyval" where
  "with_id h r =
     (case r of
        PDict d \<Rightarrow>
          (case map_of d ''url'' of
             None \<Rightarrow> r
           | Some url \<Rightarrow>
               (case parse_id h url of
                  Inl e \<Rightarrow> r
                | Inr i \<Rightarrow> PDict (dict_set d ''id'' i)))
      | _ \<Rightarrow> r)"

definition on_elements :: "(pyval \<Rightarrow> pyval) \<Rightarrow> pyval \<Rightarrow> pyval" where
  "on_elements f v = (case v of PList xs \<Rightarrow> PList (map f xs) | _ \<Rightarrow> v)"



definition label_relations :: "pyval \<Rightarrow> pyval" where
  "label_relations v =
     (case v of
        PDict rel \<Rightarrow> PDict (map (\<lambda>(t, rs). (t, on_elements (with_relation t) rs)) rel)
      | _ \<Rightarrow> v)"



text \<open>The payload has a key that is the name of a parameter of the constructor:
  \<^verbatim>\<open>self\<close>, or the name \<open>param\<close> of the ID parameter.\<close>

definition clashes :: "string \<Rightarrow> pydict \<Rightarrow> bool" where
  "clashes param payload = (map_of payload ''self'' \<noteq> None \<or> map_of payload param \<noteq> None)"

text \<open>The fields that are popped with a None default and stored as they are, with the
  attribute each goes to.\<close>

definition anime_optional :: "(string \<times> ('p anime \<Rightarrow> pyval)) list" where
  "anime_optional =
     [(''title'', a_title), (''type'', a_type), (''title_synonyms'', a_synonyms),
      (''image_url'', a_image), (''title_japanese'', a_japanese_title),
      (''status'', a_status), (''episodes'', a_episodes), (''airing'', a_airing),
      (''premiered'', a_premiered), (''broadcast'', a_broadcast),
      (''synopsis'', a_synopsis), (''producer'', a_producers),
      (''licensor'', a_licensors), (''studio'', a_studios), (''source'', a_source),
      (''duration'', a_duration), (''link_canonical'', a_link), (''rating'', a_rating),
      (''score'', a_score), (''rank'', a_rank), (''popularity'', a_popularity),
      (''members'', a_members), (''favorites'', a_favorites)]"

definition manga_optional :: "(string \<times> ('p manga \<Rightarrow> pyval)) list" where
  "manga_optional =
     [(''title'', m_title), (''type'', m_type), (''title_synonyms'', m_synonyms),
      (''image_url'', m_image), (''title_japanese'', m_japanese_title),
      (''status'', m_status), (''volumes'', m_volumes), (''chapters'', m_chapters),
      (''publishing'', m_publishing), (''synopsis'', m_synopsis),
      (''link_canonical'', m_link), (''score'', m_score), (''rank'', m_rank),
      (''popularity'', m_popularity), (''members'', m_members),
      (''favorites'', m_favorites)]"

definition character_optional :: "(string \<times> ('p character \<Rightarrow> pyval)) list" where
  "character_optional =
     [(''link_canonical'', c_link), (''name'', c_name), (''image_url'', c_image),
      (''member_favorites'', c_favorites), (''name_kanji'', c_japanese_name),
      (''about'', c_about), (''voice_actors'', c_voice_actors)]"

definition person_optional :: "(string \<times> (person \<Rightarrow> pyval)) list" where
  "person_optional =
     [(''link_canonical'', p_link), (''name'', p_name), (''image_url'', p_image),
      (''member_favorites'', p_favorites), (''anime_staff_position'', p_anime),
      (''published_manga'', p_manga), (''birthday'', p_birthday), (''more'', p_more),
      (''website'', p_website), (''voice_acting_role'', p_voice_acting)]"

text \<open>The entity a construction returns, if it returns one; the caller's payload after
  the construction, whether it has returned or raised.\<close>

definition entity_of :: "(error \<times> pydict) + ('a \<times> pydict) \<Rightarrow> 'a option" where
  "entity_of r = (case r of Inl x \<Rightarrow> None | Inr x \<Rightarrow> Some (fst x))"

definition payload_after :: "(error \<times> pydict) + ('a \<times> pydict) \<Rightarrow> pydict" where
  "payload_after r = (case r of Inl x \<Rightarrow> snd x | Inr x \<Rightarrow> snd x)"

text \<open>The exception a construction raises, if it raises one.\<close>

definition exception_of :: "(error \<times> pydict) + ('a \<times> pydict) \<Rightarrow> error option" where
  "exception_of r = (case r of Inl x \<Rightarrow> Some (fst x) | Inr x \<Rightarrow> None)"


section \<open>Facts about the dict operations\<close>

lemma fst_pop: "fst (pop k kw) = field kw k"
  by (simp add: pop_def field_def split: option.splits)

lemma field_snd_pop: "k' \<noteq> k \<Longrightarrow> field (snd (pop k kw)) k' = field kw k'"
proof -
  assume ne: "k' \<noteq> k"
  have "map_of (filter (\<lambda>e. fst e \<noteq> k) kw) k' = map_of kw k'"
    using ne by (induction kw) auto
  then show ?thesis
    by (simp add: pop_def field_def split: option.splits)
qed

lemma map_of_store:
  "map_of (store p k v) k' = (if k' = k \<and> map_of p k \<noteq> None then Some v else map_of p k')"
  by (induction p) auto

lemma field_store_other: "k' \<noteq> k \<Longrightarrow> field (store p k v) k' = field p k'"
  by (simp add: field_def map_of_store)

lemma field_store_same: "map_of p k \<noteq> None \<Longrightarrow> field (store p k v) k = v"
  by (simp add: field_def map_of_store)

lemma store_field: "store p k (field p k) = p"
  by (induction p) (auto simp: field_def)


lemma field_absent: "map_of p k = None \<Longrightarrow> field p k = PNone"
  by (simp add: field_def)

lemma field_present: "field p k \<noteq> PNone \<Longrightarrow> map_of p k \<noteq> None"
  by (auto simp: field_def split: option.splits)

lemma fst_pop_genres: "fst (pop_genres kw) = selected_genres kw"
  by (simp add: pop_genres_def selected_genres_def Let_def case_prod_beta fst_pop field_snd_pop)

lemma field_snd_pop_genres:
  "k \<noteq> ''genre'' \<Longrightarrow> k \<noteq> ''genres'' \<Longrightarrow> field (snd (pop_genres kw)) k = field kw k"
  by (simp add: pop_genres_def Let_def case_prod_beta field_snd_pop)

lemma selected_genres_snd_pop:
  "k \<noteq> ''genre'' \<Longrightarrow> k \<noteq> ''genres'' \<Longrightarrow> selected_genres (snd (pop k kw)) = selected_genres kw"
  by (simp add: selected_genres_def field_snd_pop)

lemma store_absent: "map_of p k = None \<Longrightarrow> store p k v = p"
  by (induction p) auto

lemma map_of_store_None: "(map_of (store p k v) k' = None) = (map_of p k' = None)"
  by (simp add: map_of_store)

lemma clashes_store: "clashes param (store p k v) = clashes param p"
  by (simp add: clashes_def map_of_store_None)

lemma bind_kwargs_clashes:
  "bind_kwargs [''self'', param] payload =
     (if clashes param payload then Inl TypeError else Inr payload)"
  by (simp add: bind_kwargs_def clashes_def)

lemma Anime_init_eq:
  "Anime_init h anime_id payload =
     (if clashes ''anime_id'' payload then Inl (TypeError, payload) else
     (case date_range (field payload ''aired_string'') of
        Inl e \<Rightarrow> Inl (e, payload)
      | Inr se \<Rightarrow>
     (case genre_names (selected_genres payload) of
        Inl e \<Rightarrow> Inl (e, payload)
      | Inr genres \<Rightarrow>
     (case build_related h (field payload ''related'') of
        Inl er \<Rightarrow> Inl (fst er, store payload ''related'' (snd er))
      | Inr rr \<Rightarrow>
         Inr (\<lparr>a_id = anime_id, a_title = field payload ''title'',
               a_type = field payload ''type'',
               a_synonyms = field payload ''title_synonyms'',
               a_image = field payload ''image_url'',
               a_japanese_title = field payload ''title_japanese'',
               a_status = field payload ''status'',
               a_episodes = field payload ''episodes'',
               a_airing = field payload ''airing'',
               a_air_time = field payload ''aired_string'',
               a_air_start = fst se, a_air_end = snd se,
               a_premiered = field payload ''premiered'',
               a_broadcast = field payload ''broadcast'',
               a_synopsis = field payload ''synopsis'',
               a_producers = field payload ''producer'',
               a_licensors = field payload ''licensor'',
               a_studios = field payload ''studio'',
               a_source = field payload ''source'',
               a_raw_genres = selected_genres payload, a_genres = genres,
               a_duration = field payload ''duration'',
               a_link = field payload ''link_canonical'',
               a_rating = field payload ''rating'',
               a_score = field payload ''score'',
               a_rank = field payload ''rank'',
               a_popularity = field payload ''popularity'',
               a_members = field payload ''members'',
               a_favorites = field payload ''favorites'',
               a_related = snd rr, a_raw_related = fst rr\<rparr>,
              store payload ''related'' (fst rr))))))"
  unfolding Anime_init_def Let_def bind_kwargs_clashes
  by (simp add: case_prod_beta fst_pop field_snd_pop fst_pop_genres field_snd_pop_genres
      selected_genres_snd_pop split: sum.splits)

lemma Manga_init_eq:
  "Manga_init h manga_id payload =
     (if clashes ''manga_id'' payload then Inl (TypeError, payload) else
     (case date_range (field payload ''published_string'') of
        Inl e \<Rightarrow> Inl (e, payload)
      | Inr se \<Rightarrow>
     (case resolve_author h (field payload ''author'') of
        Inl ea \<Rightarrow> Inl (fst ea, store payload ''author'' (snd ea))
      | Inr au \<Rightarrow>
     (case genre_names (selected_genres payload) of
        Inl e \<Rightarrow> Inl (e, store payload ''author'' (fst au))
      | Inr genres \<Rightarrow>
     (case getitem_0 (field payload ''serialization'') of
        Inl e \<Rightarrow> Inl (e, store payload ''author'' (fst au))
      | Inr serialization \<Rightarrow>
     (case build_related h (field payload ''related'') of
        Inl er \<Rightarrow>
          Inl (fst er, store (store payload ''author'' (fst au)) ''related'' (snd er))
      | Inr rr \<Rightarrow>
         Inr (\<lparr>m_id = manga_id, m_title = field payload ''title'',
               m_type = field payload ''type'',
               m_synonyms = field payload ''title_synonyms'',
               m_image = field payload ''image_url'',
               m_japanese_title = field payload ''title_japanese'',
               m_status = field payload ''status'',
               m_volumes = field payload ''volumes'',
               m_chapters = field payload ''chapters'',
               m_publishing = field payload ''publishing'',
               m_synopsis = field payload ''synopsis'',
               m_publish_time = field payload ''published_string'',
               m_publish_start = fst se, m_publish_end = snd se,
               m_raw_author = fst (snd au), m_author = snd (snd au),
               m_raw_genres = selected_genres payload, m_genres = genres,
               m_serialization = serialization,
               m_link = field payload ''link_canonical'',
               m_score = field payload ''score'',
               m_rank = field payload ''rank'',
               m_popularity = field payload ''popularity'',
               m_members = field payload ''members'',
               m_favorites = field payload ''favorites'',
               m_related = snd rr, m_raw_related = fst rr\<rparr>,
              store (store payload ''author'' (fst au)) ''related'' (fst rr))))))))"
  unfolding Manga_init_def Let_def bind_kwargs_clashes
  by (simp add: case_prod_beta fst_pop field_snd_pop fst_pop_genres field_snd_pop_genres
      selected_genres_snd_pop split: sum.splits)

lemma Character_init_eq:
  "Character_init h char_id payload =
     (if clashes ''char_id'' payload then Inl (TypeError, payload) else
     (case enrich_all h (PartialAnime_from_character h) (field payload ''animeography'') of
        Inl ea \<Rightarrow> Inl (fst ea, store payload ''animeography'' (snd ea))
      | Inr an \<Rightarrow>
     (case enrich_all h (PartialManga_from_character h) (field payload ''mangaography'') of
        Inl em \<Rightarrow>
          Inl (fst em, store (store payload ''animeography'' (fst an)) ''mangaography'' (snd em))
      | Inr mn \<Rightarrow>
         Inr (\<lparr>c_id = char_id, c_link = field payload ''link_canonical'',
               c_name = field payload ''name'',
               c_image = field payload ''image_url'',
               c_favorites = field payload ''member_favorites'',
               c_animeography = snd an, c_raw_animeography = fst an,
               c_mangaography = snd mn, c_raw_mangaography = fst mn,
               c_japanese_name = field payload ''name_kanji'',
               c_about = field payload ''about'',
               c_voice_actors = field payload ''voice_actors''\<rparr>,
              store (store payload ''animeography'' (fst an)) ''mangaography'' (fst mn)))))"
  unfolding Character_init_def Let_def bind_kwargs_clashes
  by (simp add: case_prod_beta fst_pop field_snd_pop split: sum.splits)

lemma Person_init_eq:
  "Person_init person_id payload =
     (if clashes ''person_id'' payload then Inl (TypeError, payload) else
      Inr (\<lparr>p_id = person_id,
            p_link = field payload ''link_canonical'',
            p_name = field payload ''name'',
            p_image = field payload ''image_url'',
            p_favorites = field payload ''member_favorites'',
            p_anime = field payload ''anime_staff_position'',
            p_manga = field payload ''published_manga'',
            p_birthday = field payload ''birthday'',
            p_more = field payload ''more'',
            p_website = field payload ''website'',
            p_voice_acting = field payload ''voice_acting_role''\<rparr>, payload))"
  unfolding Person_init_def Let_def bind_kwargs_clashes
  by (simp add: case_prod_beta fst_pop field_snd_pop)

lemma returnsE:
  assumes "\<not> isl r"
  obtains a p where "r = Inr (a, p)"
  using assms by (cases r) auto

section \<open>A missing date field\<close>

lemma date_range_None: "date_range PNone = Inl TypeError"
  by (simp add: date_range_def str_in_def)

text \<open>
  C5.  An Anime payload without \<^verbatim>\<open>aired_string\<close> and a Manga payload without
  \<^verbatim>\<open>published_string\<close> make construction fail with an untyped error: the test
  \<^verbatim>\<open>" to " not in None\<close> of lines 107 and 234 raises TypeError, whatever else the
  payload holds (a key that is a parameter name raises TypeError too, at the call).
  Nothing has been assigned by then, so the payload is as it was.
\<close>

theorem missing_date_field_fails:
  "(map_of payload ''aired_string'' = None \<longrightarrow>
      Anime_init h i payload = Inl (TypeError, payload)) \<and>
   (map_of payload ''published_string'' = None \<longrightarrow>
      Manga_init h j payload = Inl (TypeError, payload))"
  by (simp add: Anime_init_eq Manga_init_eq field_absent date_range_None)

theorem missing_date_field_fails_witness:
  "map_of [(''title'', PStr ''Naruto''), (''related'', PDict [])] ''aired_string'' = None \<and>
   Anime_init mal_helpers 20 [(''title'', PStr ''Naruto''), (''related'', PDict [])]
     = Inl (TypeError, [(''title'', PStr ''Naruto''), (''related'', PDict [])]) \<and>
   map_of [(''title'', PStr ''Naruto''), (''related'', PDict [])] ''published_string'' = None \<and>
   Manga_init mal_helpers 11 [(''title'', PStr ''Naruto''), (''related'', PDict [])]
     = Inl (TypeError, [(''title'', PStr ''Naruto''), (''related'', PDict [])])"
  using missing_date_field_fails
    [of "[(''title'', PStr ''Naruto''), (''related'', PDict [])]" mal_helpers 20 11]
  by simp

section \<open>Person construction\<close>

text \<open>
  C10, as the code has it.  For every numeric ID and every mapping that has neither the
  key \<^verbatim>\<open>self\<close> nor the key \<^verbatim>\<open>person_id\<close>, also the empty one, Person
  construction returns an entity, never an error; every attribute is the mapping's value
  for its source key, or None when the key is missing; the caller's mapping is left as it
  was.  A mapping with one of the two keys makes the call
  \<^verbatim>\<open>Person(person_id, **mapping)\<close> raise TypeError.
\<close>

theorem Person_init_total:
  "(map_of payload ''self'' = None \<and> map_of payload ''person_id'' = None \<longrightarrow>
      Person_init person_id payload =
        Inr (\<lparr>p_id = person_id,
              p_link = field payload ''link_canonical'',
              p_name = field payload ''name'',
              p_image = field payload ''image_url'',
              p_favorites = field payload ''member_favorites'',
              p_anime = field payload ''anime_staff_position'',
              p_manga = field payload ''published_manga'',
              p_birthday = field payload ''birthday'',
              p_more = field payload ''more'',
              p_website = field payload ''website'',
              p_voice_acting = field payload ''voice_acting_role''\<rparr>, payload)) \<and>
   (map_of payload ''self'' \<noteq> None \<or> map_of payload ''person_id'' \<noteq> None \<longrightarrow>
      Person_init person_id payload = Inl (TypeError, payload))"
  by (simp add: Person_init_eq clashes_def)

theorem Person_init_total_witness:
  "Person_init 7 [] =
     Inr (\<lparr>p_id = 7, p_link = PNone, p_name = PNone, p_image = PNone, p_favorites = PNone,
           p_anime = PNone, p_manga = PNone, p_birthday = PNone, p_more = PNone,
           p_website = PNone, p_voice_acting = PNone\<rparr>, []) \<and>
   Person_init 7 [(''name'', PStr ''Kentarou Miura''), (''birthday'', PStr ''Jul 11, 1966'')] =
     Inr (\<lparr>p_id = 7, p_link = PNone, p_name = PStr ''Kentarou Miura'', p_image = PNone,
           p_favorites = PNone, p_anime = PNone, p_manga = PNone,
           p_birthday = PStr ''Jul 11, 1966'', p_more = PNone, p_website = PNone,
           p_voice_acting = PNone\<rparr>,
          [(''name'', PStr ''Kentarou Miura''), (''birthday'', PStr ''Jul 11, 1966'')]) \<and>
   Person_init 7 [(''name'', PStr ''Kentarou Miura''), (''self'', PNone)] =
     Inl (TypeError, [(''name'', PStr ''Kentarou Miura''), (''self'', PNone)])"
proof -
  let ?P = "[(''name'', PStr ''Kentarou Miura''), (''birthday'', PStr ''Jul 11, 1966'')]"
  let ?S = "[(''name'', PStr ''Kentarou Miura''), (''self'', PNone)]"
  have e: "map_of [] ''self'' = None \<and> map_of [] ''person_id'' = None"
    by simp
  have p: "map_of ?P ''self'' = None \<and> map_of ?P ''person_id'' = None"
    by simp
  have s: "map_of ?S ''self'' \<noteq> None \<or> map_of ?S ''person_id'' \<noteq> None"
    by simp
  from Person_init_total [of "[]" 7, THEN conjunct1, THEN mp, OF e]
    Person_init_total [of ?P 7, THEN conjunct1, THEN mp, OF p]
    Person_init_total [of ?S 7, THEN conjunct2, THEN mp, OF s]
  show ?thesis by (simp add: field_def)
qed

text \<open>
  C10 as the specification states it fails: Person construction does not succeed for
  every mapping whatsoever.  \<^verbatim>\<open>Person(7, **{"person_id": 1})\<close> raises TypeError,
  because \<^verbatim>\<open>person_id\<close> gets two values.
\<close>

theorem Person_init_keyword_clash_counterexample:
  "Person_init 7 [(''person_id'', PInt 1)] = Inl (TypeError, [(''person_id'', PInt 1)])"
  by code_simp

section \<open>Date ranges\<close>

lemma find_first_sublist: "find_first sep s = Some i \<Longrightarrow> sublist sep s"
proof (induction s arbitrary: i)
  case Nil
  then show ?case by (simp split: if_splits)
next
  case (Cons c cs)
  show ?case
  proof (cases "take (length sep) (c # cs) = sep")
    case True
    then have "prefix sep (c # cs)"
      by (metis take_is_prefix)
    then show ?thesis by (rule prefix_imp_sublist)
  next
    case False
    with Cons.prems obtain j where "find_first sep cs = Some j" by auto
    then have "sublist sep cs" by (rule Cons.IH)
    then show ?thesis by (simp add: sublist_Cons_right)
  qed
qed

lemma find_first_None: "\<not> sublist sep s \<Longrightarrow> find_first sep s = None"
  using find_first_sublist by (cases "find_first sep s") auto

lemma find_first_at:
  "\<not> sublist sep (b @ butlast sep) \<Longrightarrow> find_first sep (b @ sep @ a) = Some (length b)"
proof (induction b)
  case Nil
  show ?case
  proof (cases "sep @ a")
    case Nil
    then show ?thesis by simp
  next
    case (Cons c cs)
    have "take (length sep) (sep @ a) = sep" by simp
    with Cons show ?thesis by simp
  qed
next
  case (Cons x b)
  have ne: "sep \<noteq> []" using Cons.prems by auto
  have "\<not> sublist sep (b @ butlast sep)"
    using Cons.prems by (auto simp: sublist_Cons_right)
  then have ih: "find_first sep (b @ sep @ a) = Some (length b)" by (rule Cons.IH)
  have "take (length sep) ((x # b) @ sep @ a) \<noteq> sep"
  proof
    assume eq: "take (length sep) ((x # b) @ sep @ a) = sep"
    have len: "length sep \<le> length ((x # b) @ butlast sep)" using ne by simp
    have "(x # b) @ sep @ a = ((x # b) @ butlast sep) @ (last sep # a)"
      using ne by simp
    then have "take (length sep) ((x # b) @ sep @ a) = take (length sep) ((x # b) @ butlast sep)"
      using len by (metis append.right_neutral diff_is_0_eq take_0 take_append)
    with eq have "prefix sep ((x # b) @ butlast sep)"
      by (metis take_is_prefix)
    then have "sublist sep ((x # b) @ butlast sep)" by (rule prefix_imp_sublist)
    with Cons.prems show False by simp
  qed
  with ih show ?case by simp
qed

lemma py_split_two:
  assumes "\<not> sublist sep (b @ butlast sep)" and "\<not> sublist sep a"
  shows "py_split sep (b @ sep @ a) = [b, a]"
proof -
  have ne: "sep \<noteq> []" using assms(2) by auto
  have "py_split sep a = [a]"
    using find_first_None [OF assms(2)] by (simp add: py_split.simps)
  then show ?thesis
    using find_first_at [OF assms(1), of a] ne
    by (subst py_split.simps) simp
qed

lemma date_range_two:
  assumes "\<not> sublist '' to '' (b @ '' to'')" and "\<not> sublist '' to '' a"
  shows "date_range (PStr (b @ '' to '' @ a)) = Inr (PStr b, PStr a)"
proof -
  have "\<not> sublist '' to '' (b @ butlast '' to '')" using assms(1) by simp
  from py_split_two [OF this assms(2)] find_first_at [OF this, of a]
  show ?thesis by (simp add: date_range_def str_in_def)
qed

lemma date_range_whole:
  assumes "\<not> sublist '' to '' s"
  shows "date_range (PStr s) = Inr (PStr s, PNone)"
  using find_first_None [OF assms] by (simp add: date_range_def str_in_def)

lemma Anime_init_dates:
  "Anime_init h i payload = Inr (a, payload') \<Longrightarrow>
     date_range (field payload ''aired_string'') = Inr (a_air_start a, a_air_end a)"
  by (auto simp: Anime_init_eq split: if_splits sum.splits)

lemma Manga_init_dates:
  "Manga_init h i payload = Inr (m, payload') \<Longrightarrow>
     date_range (field payload ''published_string'') = Inr (m_publish_start m, m_publish_end m)"
  by (auto simp: Manga_init_eq split: if_splits sum.splits)

text \<open>
  C1, as the code has it.  When the date string has the separator \<^verbatim>\<open>" to "\<close> once
  (its first occurrence ends \<open>before\<close>, and \<open>after\<close> has none), lines 107 to 111
  give \<open>before\<close> as start and \<open>after\<close> as end; a string without the separator is the
  start, and the end is None.  A constructed Anime has these two values as
  \<^verbatim>\<open>air_start\<close> and \<^verbatim>\<open>air_end\<close>, a constructed Manga as \<^verbatim>\<open>publish_start\<close> and
  \<^verbatim>\<open>publish_end\<close>.
\<close>

theorem date_range_start_end:
  "(\<not> sublist '' to '' (before @ '' to'') \<and> \<not> sublist '' to '' after \<longrightarrow>
      date_range (PStr (before @ '' to '' @ after)) = Inr (PStr before, PStr after)) \<and>
   (\<not> sublist '' to '' whole \<longrightarrow> date_range (PStr whole) = Inr (PStr whole, PNone)) \<and>
   (Anime_init h i payload = Inr (a, payload') \<longrightarrow>
      date_range (field payload ''aired_string'') = Inr (a_air_start a, a_air_end a)) \<and>
   (Manga_init h j payload = Inr (m, payload'') \<longrightarrow>
      date_range (field payload ''published_string'')
        = Inr (m_publish_start m, m_publish_end m))"
  using date_range_two date_range_whole Anime_init_dates Manga_init_dates by blast

theorem date_range_start_end_witness:
  "date_range (PStr ''Apr 3, 2020 to ?'') = Inr (PStr ''Apr 3, 2020'', PStr ''?'') \<and>
   date_range (PStr ''Apr 3, 2020'') = Inr (PStr ''Apr 3, 2020'', PNone) \<and>
   map_option a_air_start (entity_of (Anime_init mal_helpers 40591
      [(''aired_string'', PStr ''Apr 3, 2020 to ?''), (''related'', PDict [])]))
     = Some (PStr ''Apr 3, 2020'') \<and>
   map_option a_air_end (entity_of (Anime_init mal_helpers 40591
      [(''aired_string'', PStr ''Apr 3, 2020 to ?''), (''related'', PDict [])]))
     = Some (PStr ''?'') \<and>
   map_option m_publish_start (entity_of (Manga_init mal_helpers 2
      [(''published_string'', PStr ''Apr 3, 2020''),
       (''author'', PList [PDict [(''url'', PStr ''https://myanimelist.net/people/1868/K'')]]),
       (''serialization'', PList [PStr ''Young Animal'']), (''related'', PDict [])]))
     = Some (PStr ''Apr 3, 2020'') \<and>
   map_option m_publish_end (entity_of (Manga_init mal_helpers 2
      [(''published_string'', PStr ''Apr 3, 2020''),
       (''author'', PList [PDict [(''url'', PStr ''https://myanimelist.net/people/1868/K'')]]),
       (''serialization'', PList [PStr ''Young Animal'']), (''related'', PDict [])]))
     = Some PNone"
proof -
  let ?A = "[(''aired_string'', PStr ''Apr 3, 2020 to ?''), (''related'', PDict [])]"
  let ?M = "[(''published_string'', PStr ''Apr 3, 2020''),
       (''author'', PList [PDict [(''url'', PStr ''https://myanimelist.net/people/1868/K'')]]),
       (''serialization'', PList [PStr ''Young Animal'']), (''related'', PDict [])]"
  have n1: "\<not> sublist '' to '' (''Apr 3, 2020'' @ '' to'')" by code_simp
  have n2: "\<not> sublist '' to '' ''?''" by code_simp
  have n3: "\<not> sublist '' to '' ''Apr 3, 2020''" by code_simp
  have "\<not> isl (Anime_init mal_helpers 40591 ?A)" by code_simp
  then obtain a p where A: "Anime_init mal_helpers 40591 ?A = Inr (a, p)"
    by (rule returnsE)
  have "\<not> isl (Manga_init mal_helpers 2 ?M)" by code_simp
  then obtain m q where M: "Manga_init mal_helpers 2 ?M = Inr (m, q)"
    by (rule returnsE)
  note t = date_range_start_end
    [of "''Apr 3, 2020''" "''?''" "''Apr 3, 2020''" mal_helpers 40591 ?A a p 2 m q]
  note u = date_range_start_end
    [of "''Apr 3, 2020''" "''?''" "''Apr 3, 2020''" mal_helpers 40591 ?M a p 2 m q]
  from t n1 n2 n3 A have
    r1: "date_range (PStr ''Apr 3, 2020 to ?'') = Inr (PStr ''Apr 3, 2020'', PStr ''?'')" and
    r2: "date_range (PStr ''Apr 3, 2020'') = Inr (PStr ''Apr 3, 2020'', PNone)" and
    r3: "date_range (field ?A ''aired_string'') = Inr (a_air_start a, a_air_end a)"
    by simp_all
  from u M have
    r4: "date_range (field ?M ''published_string'') = Inr (m_publish_start m, m_publish_end m)"
    by simp
  from r1 r3 have "a_air_start a = PStr ''Apr 3, 2020''" "a_air_end a = PStr ''?''"
    by (simp_all add: field_def)
  moreover from r2 r4 have "m_publish_start m = PStr ''Apr 3, 2020''" "m_publish_end m = PNone"
    by (simp_all add: field_def)
  ultimately show ?thesis
    using r1 r2 A M by (simp add: entity_of_def)
qed

text \<open>
  C1 as the specification states it fails: a date string with the separator twice is
  split into three parts, the unpacking of line 111 raises ValueError, and no Anime is
  constructed.
\<close>

theorem date_range_two_separators_counterexample:
  "sublist '' to '' ''Oct 3, 2002 to Feb 8, 2007 to ?'' \<and>
   Anime_init mal_helpers 20
     [(''aired_string'', PStr ''Oct 3, 2002 to Feb 8, 2007 to ?''), (''related'', PDict [])]
     = Inl (ValueError,
        [(''aired_string'', PStr ''Oct 3, 2002 to Feb 8, 2007 to ?''), (''related'', PDict [])])"
  by code_simp

section \<open>Optional fields\<close>

lemma Anime_init_attrs:
  assumes "Anime_init h i payload = Inr (a, payload')"
  shows "a_title a = field payload ''title''" "a_type a = field payload ''type''"
    "a_synonyms a = field payload ''title_synonyms''" "a_image a = field payload ''image_url''"
    "a_japanese_title a = field payload ''title_japanese''"
    "a_status a = field payload ''status''" "a_episodes a = field payload ''episodes''"
    "a_airing a = field payload ''airing''" "a_premiered a = field payload ''premiered''"
    "a_broadcast a = field payload ''broadcast''" "a_synopsis a = field payload ''synopsis''"
    "a_producers a = field payload ''producer''" "a_licensors a = field payload ''licensor''"
    "a_studios a = field payload ''studio''" "a_source a = field payload ''source''"
    "a_duration a = field payload ''duration''" "a_link a = field payload ''link_canonical''"
    "a_rating a = field payload ''rating''" "a_score a = field payload ''score''"
    "a_rank a = field payload ''rank''" "a_popularity a = field payload ''popularity''"
    "a_members a = field payload ''members''" "a_favorites a = field payload ''favorites''"
  using assms by (auto simp: Anime_init_eq split: if_splits sum.splits)

lemma Anime_optional_attr:
  assumes "(k, attr) \<in> set anime_optional" and "Anime_init h i payload = Inr (a, payload')"
  shows "attr a = field payload k"
  using assms(1) Anime_init_attrs [OF assms(2)]
  unfolding anime_optional_def by auto

lemma anime_optional_keys:
  "(k, attr) \<in> set anime_optional \<Longrightarrow>
     k \<notin> {''self'', ''anime_id'', ''aired_string'', ''genre'', ''genres'', ''related''}"
  unfolding anime_optional_def by auto

lemma Anime_init_isl_cong:
  assumes "clashes ''anime_id'' p = clashes ''anime_id'' q"
    and "field p ''aired_string'' = field q ''aired_string''"
    and "selected_genres p = selected_genres q"
    and "field p ''related'' = field q ''related''"
  shows "isl (Anime_init h i p) = isl (Anime_init h i q)"
  using assms by (simp add: Anime_init_eq split: sum.splits)

lemma Anime_optional_isl:
  assumes "(k, attr) \<in> set anime_optional"
  shows "isl (Anime_init h i ((k, v) # payload)) = isl (Anime_init h i payload)"
proof -
  from anime_optional_keys [OF assms]
  have "k \<noteq> ''self''" "k \<noteq> ''anime_id''" "k \<noteq> ''aired_string''" "k \<noteq> ''genre''"
    "k \<noteq> ''genres''" "k \<noteq> ''related''"
    by auto
  then show ?thesis
    by (intro Anime_init_isl_cong) (simp_all add: clashes_def selected_genres_def field_def)
qed

lemma Manga_init_attrs:
  assumes "Manga_init h i payload = Inr (m, payload')"
  shows "m_title m = field payload ''title''" "m_type m = field payload ''type''"
    "m_synonyms m = field payload ''title_synonyms''" "m_image m = field payload ''image_url''"
    "m_japanese_title m = field payload ''title_japanese''"
    "m_status m = field payload ''status''" "m_volumes m = field payload ''volumes''"
    "m_chapters m = field payload ''chapters''" "m_publishing m = field payload ''publishing''"
    "m_synopsis m = field payload ''synopsis''" "m_link m = field payload ''link_canonical''"
    "m_score m = field payload ''score''" "m_rank m = field payload ''rank''"
    "m_popularity m = field payload ''popularity''" "m_members m = field payload ''members''"
    "m_favorites m = field payload ''favorites''"
  using assms by (auto simp: Manga_init_eq split: if_splits sum.splits)

lemma Manga_optional_attr:
  assumes "(k, attr) \<in> set manga_optional" and "Manga_init h i payload = Inr (m, payload')"
  shows "attr m = field payload k"
  using assms(1) Manga_init_attrs [OF assms(2)]
  unfolding manga_optional_def by auto

lemma manga_optional_keys:
  "(k, attr) \<in> set manga_optional \<Longrightarrow>
     k \<notin> {''self'', ''manga_id'', ''published_string'', ''author'', ''genre'', ''genres'',
           ''serialization'', ''related''}"
  unfolding manga_optional_def by auto

lemma Manga_init_isl_cong:
  assumes "clashes ''manga_id'' p = clashes ''manga_id'' q"
    and "field p ''published_string'' = field q ''published_string''"
    and "field p ''author'' = field q ''author''"
    and "selected_genres p = selected_genres q"
    and "field p ''serialization'' = field q ''serialization''"
    and "field p ''related'' = field q ''related''"
  shows "isl (Manga_init h i p) = isl (Manga_init h i q)"
  using assms by (simp add: Manga_init_eq split: sum.splits)

lemma Manga_optional_isl:
  assumes "(k, attr) \<in> set manga_optional"
  shows "isl (Manga_init h i ((k, v) # payload)) = isl (Manga_init h i payload)"
proof -
  from manga_optional_keys [OF assms]
  have "k \<noteq> ''self''" "k \<noteq> ''manga_id''" "k \<noteq> ''published_string''" "k \<noteq> ''author''"
    "k \<noteq> ''genre''" "k \<noteq> ''genres''" "k \<noteq> ''serialization''" "k \<noteq> ''related''"
    by auto
  then show ?thesis
    by (intro Manga_init_isl_cong) (simp_all add: clashes_def selected_genres_def field_def)
qed

lemma Character_init_attrs:
  assumes "Character_init h i payload = Inr (c, payload')"
  shows "c_link c = field payload ''link_canonical''" "c_name c = field payload ''name''"
    "c_image c = field payload ''image_url''"
    "c_favorites c = field payload ''member_favorites''"
    "c_japanese_name c = field payload ''name_kanji''" "c_about c = field payload ''about''"
    "c_voice_actors c = field payload ''voice_actors''"
  using assms by (auto simp: Character_init_eq split: if_splits sum.splits)

lemma Character_optional_attr:
  assumes "(k, attr) \<in> set character_optional"
    and "Character_init h i payload = Inr (c, payload')"
  shows "attr c = field payload k"
  using assms(1) Character_init_attrs [OF assms(2)]
  unfolding character_optional_def by auto

lemma character_optional_keys:
  "(k, attr) \<in> set character_optional \<Longrightarrow>
     k \<notin> {''self'', ''char_id'', ''animeography'', ''mangaography''}"
  unfolding character_optional_def by auto

lemma Character_init_isl_cong:
  assumes "clashes ''char_id'' p = clashes ''char_id'' q"
    and "field p ''animeography'' = field q ''animeography''"
    and "field p ''mangaography'' = field q ''mangaography''"
  shows "isl (Character_init h i p) = isl (Character_init h i q)"
  using assms by (simp add: Character_init_eq split: sum.splits)

lemma Character_optional_isl:
  assumes "(k, attr) \<in> set character_optional"
  shows "isl (Character_init h i ((k, v) # payload)) = isl (Character_init h i payload)"
proof -
  from character_optional_keys [OF assms]
  have "k \<noteq> ''self''" "k \<noteq> ''char_id''" "k \<noteq> ''animeography''" "k \<noteq> ''mangaography''"
    by auto
  then show ?thesis
    by (intro Character_init_isl_cong) (simp_all add: clashes_def field_def)
qed

lemma Person_optional_attr:
  assumes "(k, attr) \<in> set person_optional" and "Person_init i payload = Inr (x, payload')"
  shows "attr x = field payload k"
  using assms unfolding person_optional_def
  by (auto simp: Person_init_eq split: if_splits)

lemma Person_optional_isl:
  assumes "(k, attr) \<in> set person_optional"
  shows "isl (Person_init i ((k, v) # payload)) = isl (Person_init i payload)"
proof -
  from assms have "k \<noteq> ''self''" "k \<noteq> ''person_id''"
    unfolding person_optional_def by auto
  then show ?thesis
    by (simp add: Person_init_eq clashes_def)
qed

text \<open>
  C2.  Let a payload omit a field that is popped with a None default and stored as it
  is.  The omission is no error: construction returns an entity from the payload exactly
  when it returns one from the payload with any value \<open>v\<close> supplied for the field, so
  what makes a construction fail is never the missing optional field (it is one of the
  steps documented as fragile, or a key that is a parameter name).  When construction
  returns an entity, the attribute of the field is None.  The body of the Person
  constructor has no other step: Person construction returns an entity for every payload
  without the keys \<^verbatim>\<open>self\<close> and \<^verbatim>\<open>person_id\<close>.
\<close>

theorem optional_field_defaults_to_None:
  "((ka, attr_a) \<in> set anime_optional \<and> map_of payload ka = None \<longrightarrow>
      isl (Anime_init h i payload) = isl (Anime_init h i ((ka, v) # payload)) \<and>
      (Anime_init h i payload = Inr (a, pa) \<longrightarrow> attr_a a = PNone)) \<and>
   ((km, attr_m) \<in> set manga_optional \<and> map_of payload km = None \<longrightarrow>
      isl (Manga_init h i payload) = isl (Manga_init h i ((km, v) # payload)) \<and>
      (Manga_init h i payload = Inr (m, pm) \<longrightarrow> attr_m m = PNone)) \<and>
   ((kc, attr_c) \<in> set character_optional \<and> map_of payload kc = None \<longrightarrow>
      isl (Character_init h i payload) = isl (Character_init h i ((kc, v) # payload)) \<and>
      (Character_init h i payload = Inr (c, pc) \<longrightarrow> attr_c c = PNone)) \<and>
   ((kp, attr_p) \<in> set person_optional \<and> map_of payload kp = None \<longrightarrow>
      isl (Person_init i payload) = isl (Person_init i ((kp, v) # payload)) \<and>
      (map_of payload ''self'' = None \<and> map_of payload ''person_id'' = None \<longrightarrow>
         \<not> isl (Person_init i payload)) \<and>
      (Person_init i payload = Inr (x, pp) \<longrightarrow> attr_p x = PNone))"
proof (intro conjI impI)
  assume "(ka, attr_a) \<in> set anime_optional \<and> map_of payload ka = None"
  then show "isl (Anime_init h i payload) = isl (Anime_init h i ((ka, v) # payload))"
    using Anime_optional_isl [of ka attr_a h i v payload] by simp
next
  assume "(ka, attr_a) \<in> set anime_optional \<and> map_of payload ka = None"
    and "Anime_init h i payload = Inr (a, pa)"
  then show "attr_a a = PNone"
    using Anime_optional_attr [of ka attr_a h i payload a pa] by (simp add: field_absent)
next
  assume "(km, attr_m) \<in> set manga_optional \<and> map_of payload km = None"
  then show "isl (Manga_init h i payload) = isl (Manga_init h i ((km, v) # payload))"
    using Manga_optional_isl [of km attr_m h i v payload] by simp
next
  assume "(km, attr_m) \<in> set manga_optional \<and> map_of payload km = None"
    and "Manga_init h i payload = Inr (m, pm)"
  then show "attr_m m = PNone"
    using Manga_optional_attr [of km attr_m h i payload m pm] by (simp add: field_absent)
next
  assume "(kc, attr_c) \<in> set character_optional \<and> map_of payload kc = None"
  then show "isl (Character_init h i payload) = isl (Character_init h i ((kc, v) # payload))"
    using Character_optional_isl [of kc attr_c h i v payload] by simp
next
  assume "(kc, attr_c) \<in> set character_optional \<and> map_of payload kc = None"
    and "Character_init h i payload = Inr (c, pc)"
  then show "attr_c c = PNone"
    using Character_optional_attr [of kc attr_c h i payload c pc] by (simp add: field_absent)
next
  assume "(kp, attr_p) \<in> set person_optional \<and> map_of payload kp = None"
  then show "isl (Person_init i payload) = isl (Person_init i ((kp, v) # payload))"
    using Person_optional_isl [of kp attr_p i v payload] by simp
next
  assume "map_of payload ''self'' = None \<and> map_of payload ''person_id'' = None"
  then show "\<not> isl (Person_init i payload)"
    by (simp add: Person_init_eq clashes_def)
next
  assume "(kp, attr_p) \<in> set person_optional \<and> map_of payload kp = None"
    and "Person_init i payload = Inr (x, pp)"
  then show "attr_p x = PNone"
    using Person_optional_attr [of kp attr_p i payload x pp] by (simp add: field_absent)
qed

theorem optional_field_defaults_to_None_witness:
  "map_option a_title (entity_of (Anime_init mal_helpers 1
       [(''aired_string'', PStr ''Apr 3, 2020''), (''related'', PDict [])])) = Some PNone \<and>
   \<not> isl (Anime_init mal_helpers 1
       [(''title'', PStr ''Naruto''), (''aired_string'', PStr ''Apr 3, 2020''),
        (''related'', PDict [])]) \<and>
   map_option m_rank (entity_of (Manga_init mal_helpers 2
       [(''published_string'', PStr ''Aug 25, 1989 to ?''),
        (''author'', PList [PDict [(''url'', PStr ''https://myanimelist.net/people/1868/M'')]]),
        (''serialization'', PList [PStr ''Young Animal'']),
        (''related'', PDict [])])) = Some PNone \<and>
   \<not> isl (Manga_init mal_helpers 2
       [(''rank'', PInt 1), (''published_string'', PStr ''Aug 25, 1989 to ?''),
        (''author'', PList [PDict [(''url'', PStr ''https://myanimelist.net/people/1868/M'')]]),
        (''serialization'', PList [PStr ''Young Animal'']),
        (''related'', PDict [])]) \<and>
   map_option c_name (entity_of (Character_init mal_helpers 3
       [(''animeography'', PList []), (''mangaography'', PList [])])) = Some PNone \<and>
   \<not> isl (Character_init mal_helpers 3
       [(''name'', PStr ''Guts''), (''animeography'', PList []), (''mangaography'', PList [])]) \<and>
   map_option p_birthday (entity_of (Person_init 4 [(''name'', PStr ''Kentarou Miura'')]))
     = Some PNone \<and>
   \<not> isl (Person_init 4
       [(''birthday'', PStr ''Jul 11, 1966''), (''name'', PStr ''Kentarou Miura'')])"
proof -
  let ?A = "[(''aired_string'', PStr ''Apr 3, 2020''), (''related'', PDict [])]"
  let ?M = "[(''published_string'', PStr ''Aug 25, 1989 to ?''),
        (''author'', PList [PDict [(''url'', PStr ''https://myanimelist.net/people/1868/M'')]]),
        (''serialization'', PList [PStr ''Young Animal'']),
        (''related'', PDict [])]"
  let ?C = "[(''animeography'', PList []), (''mangaography'', PList [])]"
  let ?P = "[(''name'', PStr ''Kentarou Miura'')]"
  have okA: "\<not> isl (Anime_init mal_helpers 1 ?A)" by code_simp
  then obtain a pa where A: "Anime_init mal_helpers 1 ?A = Inr (a, pa)" by (rule returnsE)
  have okM: "\<not> isl (Manga_init mal_helpers 2 ?M)" by code_simp
  then obtain m pm where M: "Manga_init mal_helpers 2 ?M = Inr (m, pm)" by (rule returnsE)
  have okC: "\<not> isl (Character_init mal_helpers 3 ?C)" by code_simp
  then obtain c pc where C: "Character_init mal_helpers 3 ?C = Inr (c, pc)" by (rule returnsE)
  have ka: "(''title'', a_title) \<in> set anime_optional \<and> map_of ?A ''title'' = None"
    by (simp add: anime_optional_def)
  have km: "(''rank'', m_rank) \<in> set manga_optional \<and> map_of ?M ''rank'' = None"
    by (simp add: manga_optional_def)
  have kc: "(''name'', c_name) \<in> set character_optional \<and> map_of ?C ''name'' = None"
    by (simp add: character_optional_def)
  have kp: "(''birthday'', p_birthday) \<in> set person_optional \<and> map_of ?P ''birthday'' = None"
    by (simp add: person_optional_def)
  have np: "map_of ?P ''self'' = None \<and> map_of ?P ''person_id'' = None"
    by simp
  have "\<not> isl (Person_init 4 ?P)" by code_simp
  then obtain x pp where P: "Person_init 4 ?P = Inr (x, pp)" by (rule returnsE)
  note tA = optional_field_defaults_to_None
    [of "''title''" a_title ?A mal_helpers 1 "PStr ''Naruto''" a pa "''title''" m_title m pm
      "''name''" c_name c pc "''name''" p_name x pp]
  note tM = optional_field_defaults_to_None
    [of "''title''" a_title ?M mal_helpers 2 "PInt 1" a pa "''rank''" m_rank m pm
      "''name''" c_name c pc "''name''" p_name x pp]
  note tC = optional_field_defaults_to_None
    [of "''title''" a_title ?C mal_helpers 3 "PStr ''Guts''" a pa "''rank''" m_rank m pm
      "''name''" c_name c pc "''name''" p_name x pp]
  note tP = optional_field_defaults_to_None
    [of "''title''" a_title ?P mal_helpers 4 "PStr ''Jul 11, 1966''" a pa "''rank''" m_rank m pm
      "''name''" c_name c pc "''birthday''" p_birthday x pp,
      THEN conjunct2, THEN conjunct2, THEN conjunct2, THEN mp, OF kp]
  from tA [THEN conjunct1, THEN mp, OF ka] A okA
  have 1: "a_title a = PNone"
    "\<not> isl (Anime_init mal_helpers 1 ((''title'', PStr ''Naruto'') # ?A))"
    by simp_all
  from tM [THEN conjunct2, THEN conjunct1, THEN mp, OF km] M okM
  have 2: "m_rank m = PNone" "\<not> isl (Manga_init mal_helpers 2 ((''rank'', PInt 1) # ?M))"
    by simp_all
  from tC [THEN conjunct2, THEN conjunct2, THEN conjunct1, THEN mp, OF kc] C okC
  have 3: "c_name c = PNone"
    "\<not> isl (Character_init mal_helpers 3 ((''name'', PStr ''Guts'') # ?C))"
    by simp_all
  from tP [THEN conjunct2, THEN conjunct2, THEN mp, OF P]
  have 4: "p_birthday x = PNone" .
  from tP [THEN conjunct2, THEN conjunct1, THEN mp, OF np]
  have okP: "\<not> isl (Person_init 4 ?P)" .
  from tP [THEN conjunct1] okP
  have 5: "\<not> isl (Person_init 4 ((''birthday'', PStr ''Jul 11, 1966'') # ?P))"
    by simp
  from 1 2 3 4 5 A M C P show ?thesis
    by (simp add: entity_of_def)
qed

section \<open>Genres\<close>

lemma names_of_names:
  "names_of gs = Inr ns \<Longrightarrow> list_all2 (\<lambda>g n. getitem_str g ''name'' = Inr n) gs ns"
proof (induction gs arbitrary: ns)
  case Nil
  then show ?case by simp
next
  case (Cons g gs)
  then show ?case by (auto split: sum.splits)
qed

lemma names_of_records:
  "names_of gs = Inr ns \<Longrightarrow> g \<in> set gs \<Longrightarrow> \<exists>d. g = PDict d"
proof (induction gs arbitrary: ns)
  case Nil
  then show ?case by simp
next
  case (Cons x gs)
  from Cons.prems(1) obtain n ns' where
    x: "getitem_str x ''name'' = Inr n" and rest: "names_of gs = Inr ns'"
    by (auto split: sum.splits)
  from x have "\<exists>d. x = PDict d"
    by (cases x) (simp_all add: getitem_str_def)
  with Cons.IH [OF rest] Cons.prems(2) show ?case by auto
qed

lemma genre_names_falsy: "\<not> truthy raw \<Longrightarrow> genre_names raw = Inr PNone"
  by (simp add: genre_names_def)

lemma genre_names_truthy:
  assumes "truthy raw" and "genre_names raw = Inr g"
  shows "\<exists>gs ns. raw = PList gs \<and>
           list_all2 (\<lambda>g n. getitem_str g ''name'' = Inr n) gs ns \<and> g = PList ns"
proof -
  from assms obtain gs ns where it: "py_iter raw = Inr gs" and ns: "names_of gs = Inr ns"
    and g: "g = PList ns"
    by (auto simp: genre_names_def split: sum.splits)
  have "raw = PList gs"
  proof (cases raw)
    case (PStr s)
    with assms(1) obtain c cs where "s = c # cs" by (cases s) (auto simp: truthy_def)
    with PStr it have "PStr [c] \<in> set gs" by (auto simp: py_iter_def)
    from names_of_records [OF ns this] show ?thesis by simp
  next
    case (PDict d)
    with assms(1) obtain e es where "d = e # es" by (cases d) (auto simp: truthy_def)
    with PDict it have "PStr (fst e) \<in> set gs" by (auto simp: py_iter_def)
    from names_of_records [OF ns this] show ?thesis by simp
  qed (use it in \<open>simp_all add: py_iter_def\<close>)
  with names_of_names [OF ns] g show ?thesis by blast
qed

lemma genre_names_cases:
  assumes "genre_names raw = Inr g"
  shows "(g = PNone) = (\<not> truthy raw) \<and>
         (truthy raw \<longrightarrow>
            (\<exists>gs ns. raw = PList gs \<and>
               list_all2 (\<lambda>g n. getitem_str g ''name'' = Inr n) gs ns \<and> g = PList ns))"
proof (cases "truthy raw")
  case True
  from genre_names_truthy [OF True assms] show ?thesis using True by auto
next
  case False
  with assms genre_names_falsy [OF False] show ?thesis by simp
qed

lemma Anime_init_genres:
  "Anime_init h i payload = Inr (a, pa) \<Longrightarrow>
     genre_names (selected_genres payload) = Inr (a_genres a)"
  by (auto simp: Anime_init_eq split: if_splits sum.splits)

lemma Manga_init_genres:
  "Manga_init h i payload = Inr (m, pm) \<Longrightarrow>
     genre_names (selected_genres payload) = Inr (m_genres m)"
  by (auto simp: Manga_init_eq split: if_splits sum.splits)

text \<open>
C3, as the code has it.  Let \<open>selected_genres payload\<close> be the value of
  \<^verbatim>\<open>genre\<close>, or the value of \<^verbatim>\<open>genres\<close> when \<^verbatim>\<open>genre\<close> is missing or null.
  For a constructed Anime or Manga, \<^verbatim>\<open>genres\<close> is None exactly when that value
  is missing, null or empty (not truthy, line 124); otherwise the value is a list of
  records and \<^verbatim>\<open>genres\<close> is the list of their \<^verbatim>\<open>name\<close> entries in order.
\<close>

theorem genres_None_or_names:
  "(Anime_init h i payload = Inr (a, pa) \<longrightarrow>
      (a_genres a = PNone) = (\<not> truthy (selected_genres payload)) \<and>
      (truthy (selected_genres payload) \<longrightarrow>
         (\<exists>gs ns. selected_genres payload = PList gs \<and>
            list_all2 (\<lambda>g n. getitem_str g ''name'' = Inr n) gs ns \<and>
            a_genres a = PList ns))) \<and>
   (Manga_init h j payload = Inr (m, pm) \<longrightarrow>
      (m_genres m = PNone) = (\<not> truthy (selected_genres payload)) \<and>
      (truthy (selected_genres payload) \<longrightarrow>
         (\<exists>gs ns. selected_genres payload = PList gs \<and>
            list_all2 (\<lambda>g n. getitem_str g ''name'' = Inr n) gs ns \<and>
            m_genres m = PList ns)))"
  using genre_names_cases [OF Anime_init_genres] genre_names_cases [OF Manga_init_genres]
  by blast

theorem genres_None_or_names_witness:
  "map_option a_genres (entity_of (Anime_init mal_helpers 1
      [(''aired_string'', PStr ''Apr 3, 2020 to ?''),
       (''genre'', PList [PDict [(''name'', PStr ''Action'')],
                          PDict [(''name'', PStr ''Drama'')]]),
       (''related'', PDict [])]))
     = Some (PList [PStr ''Action'', PStr ''Drama'']) \<and>
   map_option m_genres (entity_of (Manga_init mal_helpers 2
      [(''published_string'', PStr ''Aug 25, 1989 to ?''),
       (''author'', PList [PDict [(''url'', PStr ''https://myanimelist.net/people/1868/M'')]]),
       (''serialization'', PList [PStr ''Young Animal'']),
       (''related'', PDict [])]))
     = Some PNone"
proof -
  let ?A = "[(''aired_string'', PStr ''Apr 3, 2020 to ?''),
       (''genre'', PList [PDict [(''name'', PStr ''Action'')],
                          PDict [(''name'', PStr ''Drama'')]]),
       (''related'', PDict [])]"
  let ?M = "[(''published_string'', PStr ''Aug 25, 1989 to ?''),
       (''author'', PList [PDict [(''url'', PStr ''https://myanimelist.net/people/1868/M'')]]),
       (''serialization'', PList [PStr ''Young Animal'']),
       (''related'', PDict [])]"
  have "\<not> isl (Anime_init mal_helpers 1 ?A)" by code_simp
  then obtain a pa where A: "Anime_init mal_helpers 1 ?A = Inr (a, pa)" by (rule returnsE)
  have "\<not> isl (Manga_init mal_helpers 2 ?M)" by code_simp
  then obtain m pm where M: "Manga_init mal_helpers 2 ?M = Inr (m, pm)" by (rule returnsE)
  have sA: "selected_genres ?A = PList [PDict [(''name'', PStr ''Action'')],
                          PDict [(''name'', PStr ''Drama'')]]"
    by (simp add: selected_genres_def field_def)
  have sM: "selected_genres ?M = PNone"
    by (simp add: selected_genres_def field_def)
  note tA = genres_None_or_names [of mal_helpers 1 ?A a pa 2 m pm, THEN conjunct1, THEN mp, OF A]
  note tM = genres_None_or_names [of mal_helpers 1 ?M a pa 2 m pm, THEN conjunct2, THEN mp, OF M]
  from tA sA obtain ns where
    "list_all2 (\<lambda>g n. getitem_str g ''name'' = Inr n)
       [PDict [(''name'', PStr ''Action'')], PDict [(''name'', PStr ''Drama'')]] ns"
    and "a_genres a = PList ns"
    by (auto simp: truthy_def)
  then have 1: "a_genres a = PList [PStr ''Action'', PStr ''Drama'']"
    by (auto simp: list_all2_Cons1 getitem_str_def)
  from tM sM have 2: "m_genres m = PNone"
    by (simp add: truthy_def)
  from 1 2 A M show ?thesis by (simp add: entity_of_def)
qed

text \<open>
C3 as the specification states it fails: a payload that has the key \<^verbatim>\<open>genre\<close>
  with an empty list gives \<^verbatim>\<open>genres\<close> None, although neither spelling is omitted.
\<close>

theorem genres_empty_list_counterexample:
  "map_of [(''aired_string'', PStr ''Apr 3, 2020 to ?''), (''genre'', PList []),
           (''related'', PDict [])] ''genre'' = Some (PList []) \<and>
   map_option a_genres (entity_of (Anime_init mal_helpers 1
      [(''aired_string'', PStr ''Apr 3, 2020 to ?''), (''genre'', PList []),
       (''related'', PDict [])]))
     = Some PNone"
  by code_simp

section \<open>The loops over nested records\<close>

lemma map_of_dict_set:
  "map_of (dict_set d k v) k' = (if k' = k then Some v else map_of d k')"
  by (induction d) auto

lemma dict_set_idem: "dict_set (dict_set d k v) k v = dict_set d k v"
  by (induction d) auto

lemma store_same: "field q k = v \<Longrightarrow> store q k v = q"
  using store_field by blast

lemma selected_genres_store:
  "k \<noteq> ''genre'' \<Longrightarrow> k \<noteq> ''genres'' \<Longrightarrow> selected_genres (store p k v) = selected_genres p"
  by (simp add: selected_genres_def field_store_other)

lemma setitem_str_Inr:
  "setitem_str r k v = Inr r' \<Longrightarrow> \<exists>d. r = PDict d \<and> r' = PDict (dict_set d k v)"
  by (cases r) (simp_all add: setitem_str_def)

lemma getitem_str_Inr:
  "getitem_str r k = Inr x \<Longrightarrow> \<exists>d. r = PDict d \<and> map_of d k = Some x"
  by (cases r) (auto simp: getitem_str_def split: option.splits)





text \<open>The loop over the records of one relation type.\<close>

lemma relations_loop_result:
  "relations_loop h t rs = Inr (rs', objs) \<Longrightarrow>
     rs' = map (with_relation t) rs \<and>
     list_all2 (\<lambda>r obj. \<exists>d. r = PDict d \<and>
        create_relation h (PDict (dict_set d ''relation'' (PStr t))) = Inr obj) rs objs"
proof (induction rs arbitrary: rs' objs)
  case Nil
  then show ?case by simp
next
  case (Cons r rs)
  from Cons.prems obtain r' obj rest' objs' where
    set: "setitem_str r ''relation'' (PStr t) = Inr r'" and
    mk: "create_relation h r' = Inr obj" and
    rest: "relations_loop h t rs = Inr (rest', objs')" and
    res: "rs' = r' # rest'" "objs = obj # objs'"
    by (auto split: sum.splits)
  from setitem_str_Inr [OF set] obtain d where
    d: "r = PDict d" "r' = PDict (dict_set d ''relation'' (PStr t))"
    by blast
  from Cons.IH [OF rest] d mk res show ?case
    by (simp add: with_relation_def)
qed

lemma relations_loop_again:
  "relations_loop h t rs = Inr (rs', objs) \<Longrightarrow> relations_loop h t rs' = Inr (rs', objs)"
proof (induction rs arbitrary: rs' objs)
  case Nil
  then show ?case by simp
next
  case (Cons r rs)
  from Cons.prems obtain r' obj rest' objs' where
    set: "setitem_str r ''relation'' (PStr t) = Inr r'" and
    mk: "create_relation h r' = Inr obj" and
    rest: "relations_loop h t rs = Inr (rest', objs')" and
    res: "rs' = r' # rest'" "objs = obj # objs'"
    by (auto split: sum.splits)
  from setitem_str_Inr [OF set] obtain d where
    d: "r = PDict d" "r' = PDict (dict_set d ''relation'' (PStr t))"
    by blast
  then have "setitem_str r' ''relation'' (PStr t) = Inr r'"
    by (simp add: setitem_str_def dict_set_idem)
  with Cons.IH [OF rest] mk res show ?case by simp
qed

lemma relations_loop_records:
  "relations_loop h t rs = Inr (rs', objs) \<Longrightarrow> r \<in> set rs \<Longrightarrow> \<exists>d. r = PDict d"
  using relations_loop_result [of h t rs rs' objs]
  by (auto simp: list_all2_conv_all_nth in_set_conv_nth)


text \<open>A container whose loop succeeded is a list, or has nothing to iterate.\<close>

lemma py_iter_records:
  assumes "py_iter v = Inr xs" and "\<forall>x \<in> set xs. \<exists>d. x = PDict d"
  shows "xs = elements v \<and> rebuild v ys = (case v of PList _ \<Rightarrow> PList ys | _ \<Rightarrow> v) \<and>
         ((\<exists>zs. v = PList zs) \<or> xs = [])"
proof (cases v)
  case (PStr s)
  with assms show ?thesis
    by (cases s) (auto simp: py_iter_def elements_def rebuild_def)
next
  case (PDict d)
  with assms show ?thesis
    by (cases d) (auto simp: py_iter_def elements_def rebuild_def)
qed (use assms in \<open>auto simp: py_iter_def elements_def rebuild_def\<close>)

lemma related_loop_result:
  "related_loop h rel = Inr (rel', objs) \<Longrightarrow>
     rel' = map (\<lambda>(t, rs). (t, on_elements (with_relation t) rs)) rel \<and>
     list_all2 (\<lambda>(t, r) obj. \<exists>d. r = PDict d \<and>
        create_relation h (PDict (dict_set d ''relation'' (PStr t))) = Inr obj)
       (relation_records rel) objs"
proof (induction rel arbitrary: rel' objs)
  case Nil
  then show ?case by (simp add: relation_records_def)
next
  case (Cons e rel)
  obtain t relations where e: "e = (t, relations)" by (cases e)
  from Cons.prems e obtain rs rs' objs1 items' objs2 where
    it: "py_iter relations = Inr rs" and
    inner: "relations_loop h t rs = Inr (rs', objs1)" and
    rest: "related_loop h rel = Inr (items', objs2)" and
    res: "rel' = (t, rebuild relations rs') # items'" "objs = objs1 @ objs2"
    by (auto split: sum.splits)
  have recs: "\<forall>x \<in> set rs. \<exists>d. x = PDict d"
    using relations_loop_records [OF inner] by blast
  from py_iter_records [OF it recs, of rs'] have
    el: "rs = elements relations" and
    rb: "rebuild relations rs' = (case relations of PList _ \<Rightarrow> PList rs' | _ \<Rightarrow> relations)" and
    shape: "(\<exists>zs. relations = PList zs) \<or> rs = []"
    by auto
  from relations_loop_result [OF inner] have
    rs': "rs' = map (with_relation t) rs" and
    objs1: "list_all2 (\<lambda>r obj. \<exists>d. r = PDict d \<and>
        create_relation h (PDict (dict_set d ''relation'' (PStr t))) = Inr obj) rs objs1"
    by auto
  have 1: "rebuild relations rs' = on_elements (with_relation t) relations"
    using rb rs' el by (cases relations) (simp_all add: on_elements_def elements_def)
  have 2: "list_all2 (\<lambda>(t, r) obj. \<exists>d. r = PDict d \<and>
        create_relation h (PDict (dict_set d ''relation'' (PStr t))) = Inr obj)
       (map (Pair t) (elements relations)) objs1"
    using objs1 el by (simp add: list_all2_map1)
  from Cons.IH [OF rest] 1 2 res e show ?case
    by (simp add: relation_records_def list_all2_appendI)
qed

lemma related_loop_again:
  "related_loop h rel = Inr (rel', objs) \<Longrightarrow> related_loop h rel' = Inr (rel', objs)"
proof (induction rel arbitrary: rel' objs)
  case Nil
  then show ?case by simp
next
  case (Cons e rel)
  obtain t relations where e: "e = (t, relations)" by (cases e)
  from Cons.prems e obtain rs rs' objs1 items' objs2 where
    it: "py_iter relations = Inr rs" and
    inner: "relations_loop h t rs = Inr (rs', objs1)" and
    rest: "related_loop h rel = Inr (items', objs2)" and
    res: "rel' = (t, rebuild relations rs') # items'" "objs = objs1 @ objs2"
    by (auto split: sum.splits)
  have recs: "\<forall>x \<in> set rs. \<exists>d. x = PDict d"
    using relations_loop_records [OF inner] by blast
  from py_iter_records [OF it recs, of rs'] have
    rb: "rebuild relations rs' = (case relations of PList _ \<Rightarrow> PList rs' | _ \<Rightarrow> relations)" and
    shape: "(\<exists>zs. relations = PList zs) \<or> rs = []"
    by auto
  have it': "py_iter (rebuild relations rs') = Inr rs'"
  proof (cases "\<exists>zs. relations = PList zs")
    case True
    with rb show ?thesis by (auto simp: py_iter_def)
  next
    case False
    with shape have "rs = []" by simp
    with inner have "rs' = []" by simp
    with False rb it \<open>rs = []\<close> show ?thesis by (cases relations) simp_all
  qed
  have rb': "rebuild (rebuild relations rs') rs' = rebuild relations rs'"
    by (cases relations) (simp_all add: rebuild_def)
  from relations_loop_again [OF inner] Cons.IH [OF rest] it' rb' res show ?case
    by simp
qed


lemma build_related_result:
  assumes "build_related h raw = Inr (raw', objs)"
  shows "\<exists>rel. raw = PDict rel \<and> raw' = label_relations raw \<and>
     list_all2 (\<lambda>(t, r) obj. \<exists>d. r = PDict d \<and>
        create_relation h (PDict (dict_set d ''relation'' (PStr t))) = Inr obj)
       (relation_records rel) objs"
proof (cases raw)
  case (PDict rel)
  with assms obtain rel' where "related_loop h rel = Inr (rel', objs)" "raw' = PDict rel'"
    by (auto simp: build_related_def split: sum.splits)
  with related_loop_result [of h rel rel' objs] PDict show ?thesis
    by (simp add: label_relations_def)
qed (use assms in \<open>simp_all add: build_related_def\<close>)

lemma build_related_again:
  assumes "build_related h raw = Inr (raw', objs)"
  shows "build_related h raw' = Inr (raw', objs)"
proof (cases raw)
  case (PDict rel)
  with assms obtain rel' where "related_loop h rel = Inr (rel', objs)" "raw' = PDict rel'"
    by (auto simp: build_related_def split: sum.splits)
  with related_loop_again [of h rel rel' objs] show ?thesis
    by (simp add: build_related_def)
qed (use assms in \<open>simp_all add: build_related_def\<close>)


text \<open>The loops over animeography and mangaography.\<close>

lemma enrich_loop_result:
  "enrich_loop h mk xs = Inr (xs', objs) \<Longrightarrow>
     xs' = map (with_id h) xs \<and>
     list_all2 (\<lambda>r obj. \<exists>d url v. r = PDict d \<and> map_of d ''url'' = Some url \<and>
        parse_id h url = Inr v \<and> mk (PDict (dict_set d ''id'' v)) = Inr obj) xs objs"
proof (induction xs arbitrary: xs' objs)
  case Nil
  then show ?case by simp
next
  case (Cons x xs)
  from Cons.prems obtain url v x' obj rest' objs' where
    url: "getitem_str x ''url'' = Inr url" and
    v: "parse_id h url = Inr v" and
    set: "setitem_str x ''id'' v = Inr x'" and
    mk: "mk x' = Inr obj" and
    rest: "enrich_loop h mk xs = Inr (rest', objs')" and
    res: "xs' = x' # rest'" "objs = obj # objs'"
    by (auto split: sum.splits)
  from getitem_str_Inr [OF url] obtain d where d: "x = PDict d" "map_of d ''url'' = Some url"
    by blast
  with set have x': "x' = PDict (dict_set d ''id'' v)"
    by (simp add: setitem_str_def)
  from d v x' have "with_id h x = x'"
    by (simp add: with_id_def)
  with Cons.IH [OF rest] d v x' mk res show ?case
    by simp
qed

lemma enrich_loop_again:
  "enrich_loop h mk xs = Inr (xs', objs) \<Longrightarrow> enrich_loop h mk xs' = Inr (xs', objs)"
proof (induction xs arbitrary: xs' objs)
  case Nil
  then show ?case by simp
next
  case (Cons x xs)
  from Cons.prems obtain url v x' obj rest' objs' where
    url: "getitem_str x ''url'' = Inr url" and
    v: "parse_id h url = Inr v" and
    set: "setitem_str x ''id'' v = Inr x'" and
    mk: "mk x' = Inr obj" and
    rest: "enrich_loop h mk xs = Inr (rest', objs')" and
    res: "xs' = x' # rest'" "objs = obj # objs'"
    by (auto split: sum.splits)
  from getitem_str_Inr [OF url] obtain d where d: "x = PDict d" "map_of d ''url'' = Some url"
    by blast
  with set have x': "x' = PDict (dict_set d ''id'' v)"
    by (simp add: setitem_str_def)
  have "getitem_str x' ''url'' = Inr url" "setitem_str x' ''id'' v = Inr x'"
    using d x' by (simp_all add: getitem_str_def setitem_str_def map_of_dict_set dict_set_idem)
  with Cons.IH [OF rest] v mk res show ?case
    by simp
qed

lemma enrich_loop_records:
  "enrich_loop h mk xs = Inr (xs', objs) \<Longrightarrow> x \<in> set xs \<Longrightarrow> \<exists>d. x = PDict d"
  using enrich_loop_result [of h mk xs xs' objs]
  by (auto simp: list_all2_conv_all_nth in_set_conv_nth)


lemma enrich_all_result:
  assumes "enrich_all h mk raw = Inr (raw', objs)"
  shows "raw' = on_elements (with_id h) raw \<and>
     list_all2 (\<lambda>r obj. \<exists>d url v. r = PDict d \<and> map_of d ''url'' = Some url \<and>
        parse_id h url = Inr v \<and> mk (PDict (dict_set d ''id'' v)) = Inr obj)
       (elements raw) objs"
proof -
  from assms obtain xs xs' where
    it: "py_iter raw = Inr xs" and
    loop: "enrich_loop h mk xs = Inr (xs', objs)" and
    res: "raw' = rebuild raw xs'"
    by (auto simp: enrich_all_def split: sum.splits)
  have recs: "\<forall>x \<in> set xs. \<exists>d. x = PDict d"
    using enrich_loop_records [OF loop] by blast
  from py_iter_records [OF it recs, of xs'] have
    el: "xs = elements raw" and
    rb: "rebuild raw xs' = (case raw of PList _ \<Rightarrow> PList xs' | _ \<Rightarrow> raw)"
    by auto
  from enrich_loop_result [OF loop] have
    xs': "xs' = map (with_id h) xs" and
    objs: "list_all2 (\<lambda>r obj. \<exists>d url v. r = PDict d \<and> map_of d ''url'' = Some url \<and>
        parse_id h url = Inr v \<and> mk (PDict (dict_set d ''id'' v)) = Inr obj) xs objs"
    by auto
  have "rebuild raw xs' = on_elements (with_id h) raw"
    using rb xs' el by (cases raw) (simp_all add: on_elements_def elements_def)
  with res objs el show ?thesis by simp
qed

lemma enrich_all_again:
  assumes "enrich_all h mk raw = Inr (raw', objs)"
  shows "enrich_all h mk raw' = Inr (raw', objs)"
proof -
  from assms obtain xs xs' where
    it: "py_iter raw = Inr xs" and
    loop: "enrich_loop h mk xs = Inr (xs', objs)" and
    res: "raw' = rebuild raw xs'"
    by (auto simp: enrich_all_def split: sum.splits)
  have recs: "\<forall>x \<in> set xs. \<exists>d. x = PDict d"
    using enrich_loop_records [OF loop] by blast
  from py_iter_records [OF it recs, of xs'] have
    rb: "rebuild raw xs' = (case raw of PList _ \<Rightarrow> PList xs' | _ \<Rightarrow> raw)" and
    shape: "(\<exists>zs. raw = PList zs) \<or> xs = []"
    by auto
  have it': "py_iter (rebuild raw xs') = Inr xs'"
  proof (cases "\<exists>zs. raw = PList zs")
    case True
    with rb show ?thesis by (auto simp: py_iter_def)
  next
    case False
    with shape have "xs = []" by simp
    with loop have "xs' = []" by simp
    with False rb it \<open>xs = []\<close> show ?thesis by (cases raw) simp_all
  qed
  have rb': "rebuild (rebuild raw xs') xs' = rebuild raw xs'"
    by (cases raw) (simp_all add: rebuild_def)
  from enrich_loop_again [OF loop] it' rb' res show ?thesis
    by (simp add: enrich_all_def)
qed

lemma enrich_all_None: "enrich_all h mk PNone = Inl (TypeError, PNone)"
  by (simp add: enrich_all_def py_iter_def)


text \<open>The first author.\<close>

lemma resolve_author_result:
  assumes "resolve_author h authors = Inr (authors', raw_author, obj)"
  shows "\<exists>d url v rest. authors = PList (PDict d # rest) \<and> map_of d ''url'' = Some url \<and>
           parse_id h url = Inr v \<and> raw_author = PDict (dict_set d ''id'' v) \<and>
           PartialPerson_from_author h raw_author = Inr obj \<and>
           authors' = PList (raw_author # rest)"
proof -
  from assms obtain x url v x' where
    first: "getitem_0 authors = Inr x" and
    url: "getitem_str x ''url'' = Inr url" and
    v: "parse_id h url = Inr v" and
    set: "setitem_str x ''id'' v = Inr x'" and
    mk: "PartialPerson_from_author h x' = Inr obj" and
    res: "authors' = put_0 authors x'" "raw_author = x'"
    by (auto simp: resolve_author_def split: sum.splits)
  from getitem_str_Inr [OF url] obtain d where d: "x = PDict d" "map_of d ''url'' = Some url"
    by blast
  with set have x': "x' = PDict (dict_set d ''id'' v)"
    by (simp add: setitem_str_def)
  from first d obtain rest where "authors = PList (PDict d # rest)"
    by (cases authors) (auto simp: getitem_0_def split: list.splits)
  with d v x' mk res show ?thesis
    by (simp add: put_0_def)
qed


lemma resolve_author_again:
  assumes "resolve_author h authors = Inr (authors', raw_author, obj)"
  shows "resolve_author h authors' = Inr (authors', raw_author, obj)"
proof -
  from resolve_author_result [OF assms] obtain d url v rest where
    r: "authors = PList (PDict d # rest)" "map_of d ''url'' = Some url"
      "parse_id h url = Inr v" "raw_author = PDict (dict_set d ''id'' v)"
      "PartialPerson_from_author h raw_author = Inr obj"
      "authors' = PList (raw_author # rest)"
    by blast
  then show ?thesis
    by (simp add: resolve_author_def getitem_0_def getitem_str_def setitem_str_def
        map_of_dict_set dict_set_idem put_0_def)
qed

lemma resolve_author_empty:
  "resolve_author h PNone = Inl (TypeError, PNone)"
  "resolve_author h (PList []) = Inl (IndexError, PList [])"
  by (simp_all add: resolve_author_def getitem_0_def)


lemma Anime_init_related:
  assumes "Anime_init h i payload = Inr (a, pa)"
  shows "build_related h (field payload ''related'') = Inr (a_raw_related a, a_related a)"
    and "pa = store payload ''related'' (a_raw_related a)"
    and "\<not> clashes ''anime_id'' payload"
  using assms by (auto simp: Anime_init_eq split: if_splits sum.splits)

lemma Manga_init_related:
  assumes "Manga_init h i payload = Inr (m, pm)"
  shows "build_related h (field payload ''related'') = Inr (m_raw_related m, m_related m)"
    and "\<exists>au. resolve_author h (field payload ''author'') = Inr (au, m_raw_author m, m_author m) \<and>
           pm = store (store payload ''author'' au) ''related'' (m_raw_related m)"
    and "\<not> clashes ''manga_id'' payload"
  using assms by (auto simp: Manga_init_eq split: if_splits sum.splits)

lemma Character_init_graphies:
  assumes "Character_init h i payload = Inr (c, pc)"
  shows "enrich_all h (PartialAnime_from_character h) (field payload ''animeography'')
           = Inr (c_raw_animeography c, c_animeography c)"
    and "enrich_all h (PartialManga_from_character h) (field payload ''mangaography'')
           = Inr (c_raw_mangaography c, c_mangaography c)"
    and "pc = store (store payload ''animeography'' (c_raw_animeography c))
                ''mangaography'' (c_raw_mangaography c)"
    and "\<not> clashes ''char_id'' payload"
  using assms by (auto simp: Character_init_eq split: if_splits sum.splits)

section \<open>Related entities\<close>

text \<open>
  C4.  A constructed Anime or Manga had a dict under \<^verbatim>\<open>related\<close>, and its
  \<^verbatim>\<open>related\<close> list holds one reference per record of that dict, in the order of
  the dict's items and of each item's list: the reference the factory builds from the
  record with its relation type stored under \<^verbatim>\<open>relation\<close>.  The list is a list by
  type, so never null.
\<close>

theorem related_built_in_order:
  "(Anime_init h i payload = Inr (a, pa) \<longrightarrow>
      (\<exists>rel. field payload ''related'' = PDict rel \<and>
         list_all2 (\<lambda>(t, r) obj. \<exists>d. r = PDict d \<and>
            create_relation h (PDict (dict_set d ''relation'' (PStr t))) = Inr obj)
           (relation_records rel) (a_related a))) \<and>
   (Manga_init h j payload = Inr (m, pm) \<longrightarrow>
      (\<exists>rel. field payload ''related'' = PDict rel \<and>
         list_all2 (\<lambda>(t, r) obj. \<exists>d. r = PDict d \<and>
            create_relation h (PDict (dict_set d ''relation'' (PStr t))) = Inr obj)
           (relation_records rel) (m_related m)))"
proof (intro conjI impI)
  assume "Anime_init h i payload = Inr (a, pa)"
  from build_related_result [OF Anime_init_related(1) [OF this]]
  show "\<exists>rel. field payload ''related'' = PDict rel \<and>
         list_all2 (\<lambda>(t, r) obj. \<exists>d. r = PDict d \<and>
            create_relation h (PDict (dict_set d ''relation'' (PStr t))) = Inr obj)
           (relation_records rel) (a_related a)"
    by blast
next
  assume "Manga_init h j payload = Inr (m, pm)"
  from build_related_result [OF Manga_init_related(1) [OF this]]
  show "\<exists>rel. field payload ''related'' = PDict rel \<and>
         list_all2 (\<lambda>(t, r) obj. \<exists>d. r = PDict d \<and>
            create_relation h (PDict (dict_set d ''relation'' (PStr t))) = Inr obj)
           (relation_records rel) (m_related m)"
    by blast
qed

theorem related_built_in_order_witness:
  "map_option a_related (entity_of (Anime_init mal_helpers 1
      [(''aired_string'', PStr ''Apr 3, 2020 to ?''),
       (''related'', PDict [(''Sequel'', PList [PDict [(''type'', PStr ''anime''),
          (''url'', PStr ''https://myanimelist.net/anime/5/Name'')]])])]))
     = Some [\<lparr>ref_kind = Anime_reference, ref_id = PInt 5, ref_relation = PStr ''Sequel''\<rparr>] \<and>
   map_option m_related (entity_of (Manga_init mal_helpers 2
      [(''published_string'', PStr ''Aug 25, 1989 to ?''),
       (''author'', PList [PDict [(''url'', PStr ''https://myanimelist.net/people/1868/M'')]]),
       (''serialization'', PList [PStr ''Young Animal'']),
       (''related'', PDict [(''Adaptation'', PList [PDict [(''type'', PStr ''anime''),
          (''url'', PStr ''https://myanimelist.net/anime/33/Berserk'')]])])]))
     = Some [\<lparr>ref_kind = Anime_reference, ref_id = PInt 33,
              ref_relation = PStr ''Adaptation''\<rparr>]"
proof -
  let ?A = "[(''aired_string'', PStr ''Apr 3, 2020 to ?''),
       (''related'', PDict [(''Sequel'', PList [PDict [(''type'', PStr ''anime''),
          (''url'', PStr ''https://myanimelist.net/anime/5/Name'')]])])]"
  let ?M = "[(''published_string'', PStr ''Aug 25, 1989 to ?''),
       (''author'', PList [PDict [(''url'', PStr ''https://myanimelist.net/people/1868/M'')]]),
       (''serialization'', PList [PStr ''Young Animal'']),
       (''related'', PDict [(''Adaptation'', PList [PDict [(''type'', PStr ''anime''),
          (''url'', PStr ''https://myanimelist.net/anime/33/Berserk'')]])])]"
  have "\<not> isl (Anime_init mal_helpers 1 ?A)" by code_simp
  then obtain a pa where A: "Anime_init mal_helpers 1 ?A = Inr (a, pa)" by (rule returnsE)
  have "\<not> isl (Manga_init mal_helpers 2 ?M)" by code_simp
  then obtain m pm where M: "Manga_init mal_helpers 2 ?M = Inr (m, pm)" by (rule returnsE)
  have cA: "spec_create_relation (PDict [(''type'', PStr ''anime''),
          (''url'', PStr ''https://myanimelist.net/anime/5/Name''),
          (''relation'', PStr ''Sequel'')])
     = Inr \<lparr>ref_kind = Anime_reference, ref_id = PInt 5, ref_relation = PStr ''Sequel''\<rparr>"
    by code_simp
  have cM: "spec_create_relation (PDict [(''type'', PStr ''anime''),
          (''url'', PStr ''https://myanimelist.net/anime/33/Berserk''),
          (''relation'', PStr ''Adaptation'')])
     = Inr \<lparr>ref_kind = Anime_reference, ref_id = PInt 33, ref_relation = PStr ''Adaptation''\<rparr>"
    by code_simp
  note tA = related_built_in_order
    [of mal_helpers 1 ?A a pa 2 m pm, THEN conjunct1, THEN mp, OF A]
  note tM = related_built_in_order
    [of mal_helpers 1 ?M a pa 2 m pm, THEN conjunct2, THEN mp, OF M]
  from tA cA have 1: "a_related a
      = [\<lparr>ref_kind = Anime_reference, ref_id = PInt 5, ref_relation = PStr ''Sequel''\<rparr>]"
    by (auto simp: field_def relation_records_def elements_def list_all2_Cons1 mal_helpers_def)
  from tM cM have 2: "m_related m
      = [\<lparr>ref_kind = Anime_reference, ref_id = PInt 33, ref_relation = PStr ''Adaptation''\<rparr>]"
    by (auto simp: field_def relation_records_def elements_def list_all2_Cons1 mal_helpers_def)
  from 1 2 A M show ?thesis by (simp add: entity_of_def)
qed

section \<open>The author of a Manga\<close>

text \<open>
  C6.  A constructed Manga had a non-empty author list whose first element is a record
  with a \<^verbatim>\<open>url\<close>; that record, with the id parsed from the url stored under
  \<^verbatim>\<open>id\<close>, is what the Person reference is built from, and it is the first author of
  the caller's payload afterwards; the other authors are not touched.  Without
  \<^verbatim>\<open>author\<close>, or with an empty author list, construction fails: with TypeError
  from \<^verbatim>\<open>None[0]\<close>, with IndexError from \<^verbatim>\<open>[][0]\<close>, unless the date range
  has raised before (or, for the IndexError, the call itself has raised TypeError for a
  key \<^verbatim>\<open>self\<close> or \<^verbatim>\<open>manga_id\<close>); the payload is then as it was.
\<close>

theorem first_author_resolved:
  "(Manga_init h i payload = Inr (m, pm) \<longrightarrow>
      (\<exists>d url v rest.
         field payload ''author'' = PList (PDict d # rest) \<and>
         map_of d ''url'' = Some url \<and> parse_id h url = Inr v \<and>
         m_raw_author m = PDict (dict_set d ''id'' v) \<and>
         PartialPerson_from_author h (PDict (dict_set d ''id'' v)) = Inr (m_author m) \<and>
         field pm ''author'' = PList (PDict (dict_set d ''id'' v) # rest))) \<and>
   (map_of payload ''author'' = None \<longrightarrow>
      isl (Manga_init h i payload) \<and>
      (\<not> isl (date_range (field payload ''published_string'')) \<longrightarrow>
         Manga_init h i payload = Inl (TypeError, payload))) \<and>
   (field payload ''author'' = PList [] \<longrightarrow>
      isl (Manga_init h i payload) \<and>
      (\<not> isl (date_range (field payload ''published_string'')) \<and>
       map_of payload ''self'' = None \<and> map_of payload ''manga_id'' = None \<longrightarrow>
         Manga_init h i payload = Inl (IndexError, payload)))"
proof (intro conjI impI)
  assume ok: "Manga_init h i payload = Inr (m, pm)"
  from Manga_init_related(2) [OF ok] obtain au where
    au: "resolve_author h (field payload ''author'') = Inr (au, m_raw_author m, m_author m)" and
    pm: "pm = store (store payload ''author'' au) ''related'' (m_raw_related m)"
    by blast
  from resolve_author_result [OF au] obtain d url v rest where
    r: "field payload ''author'' = PList (PDict d # rest)" "map_of d ''url'' = Some url"
      "parse_id h url = Inr v" "m_raw_author m = PDict (dict_set d ''id'' v)"
      "PartialPerson_from_author h (m_raw_author m) = Inr (m_author m)"
      "au = PList (m_raw_author m # rest)"
    by blast
  from r(1) have "map_of payload ''author'' \<noteq> None"
    by (intro field_present) simp
  with pm r have "field pm ''author'' = PList (PDict (dict_set d ''id'' v) # rest)"
    by (simp add: field_store_other field_store_same)
  with r show "\<exists>d url v rest.
         field payload ''author'' = PList (PDict d # rest) \<and>
         map_of d ''url'' = Some url \<and> parse_id h url = Inr v \<and>
         m_raw_author m = PDict (dict_set d ''id'' v) \<and>
         PartialPerson_from_author h (PDict (dict_set d ''id'' v)) = Inr (m_author m) \<and>
         field pm ''author'' = PList (PDict (dict_set d ''id'' v) # rest)"
    by auto
next
  assume "map_of payload ''author'' = None"
  then show "isl (Manga_init h i payload)"
    by (simp add: Manga_init_eq field_absent resolve_author_empty split: sum.splits)
next
  assume "map_of payload ''author'' = None"
    and "\<not> isl (date_range (field payload ''published_string''))"
  then show "Manga_init h i payload = Inl (TypeError, payload)"
    by (auto simp: Manga_init_eq field_absent resolve_author_empty store_absent
        split: sum.splits)
next
  assume "field payload ''author'' = PList []"
  then show "isl (Manga_init h i payload)"
    by (simp add: Manga_init_eq resolve_author_empty split: sum.splits)
next
  assume e: "field payload ''author'' = PList []"
    and "\<not> isl (date_range (field payload ''published_string'')) \<and>
       map_of payload ''self'' = None \<and> map_of payload ''manga_id'' = None"
  then show "Manga_init h i payload = Inl (IndexError, payload)"
    by (auto simp: Manga_init_eq clashes_def resolve_author_empty store_same [OF e]
        split: sum.splits)
qed

theorem first_author_resolved_witness:
  "map_option m_author (entity_of (Manga_init mal_helpers 2
      [(''published_string'', PStr ''Aug 25, 1989 to ?''),
       (''author'', PList [PDict [(''name'', PStr ''Miura, Kentarou''),
                                  (''url'', PStr ''https://myanimelist.net/people/1868/M'')],
                           PDict [(''name'', PStr ''Studio Gaga''),
                                  (''url'', PStr ''https://myanimelist.net/people/2/G'')]]),
       (''serialization'', PList [PStr ''Young Animal'']),
       (''related'', PDict [])]))
     = Some \<lparr>ref_kind = Person_reference, ref_id = PInt 1868, ref_relation = PNone\<rparr> \<and>
   map_option m_raw_author (entity_of (Manga_init mal_helpers 2
      [(''published_string'', PStr ''Aug 25, 1989 to ?''),
       (''author'', PList [PDict [(''name'', PStr ''Miura, Kentarou''),
                                  (''url'', PStr ''https://myanimelist.net/people/1868/M'')],
                           PDict [(''name'', PStr ''Studio Gaga''),
                                  (''url'', PStr ''https://myanimelist.net/people/2/G'')]]),
       (''serialization'', PList [PStr ''Young Animal'']),
       (''related'', PDict [])]))
     = Some (PDict [(''name'', PStr ''Miura, Kentarou''),
                    (''url'', PStr ''https://myanimelist.net/people/1868/M''),
                    (''id'', PInt 1868)]) \<and>
   exception_of (Manga_init mal_helpers 2
      [(''published_string'', PStr ''Aug 25, 1989 to ?''),
       (''serialization'', PList [PStr ''Young Animal'']),
       (''related'', PDict [])]) = Some TypeError \<and>
   exception_of (Manga_init mal_helpers 2
      [(''published_string'', PStr ''Aug 25, 1989 to ?''), (''author'', PList []),
       (''serialization'', PList [PStr ''Young Animal'']),
       (''related'', PDict [])]) = Some IndexError"
proof -
  let ?M = "[(''published_string'', PStr ''Aug 25, 1989 to ?''),
       (''author'', PList [PDict [(''name'', PStr ''Miura, Kentarou''),
                                  (''url'', PStr ''https://myanimelist.net/people/1868/M'')],
                           PDict [(''name'', PStr ''Studio Gaga''),
                                  (''url'', PStr ''https://myanimelist.net/people/2/G'')]]),
       (''serialization'', PList [PStr ''Young Animal'']),
       (''related'', PDict [])]"
  let ?N = "[(''published_string'', PStr ''Aug 25, 1989 to ?''),
       (''serialization'', PList [PStr ''Young Animal'']),
       (''related'', PDict [])]"
  let ?E = "[(''published_string'', PStr ''Aug 25, 1989 to ?''), (''author'', PList []),
       (''serialization'', PList [PStr ''Young Animal'']),
       (''related'', PDict [])]"
  have "\<not> isl (Manga_init mal_helpers 2 ?M)" by code_simp
  then obtain m pm where M: "Manga_init mal_helpers 2 ?M = Inr (m, pm)" by (rule returnsE)
  have d: "\<not> isl (date_range (PStr ''Aug 25, 1989 to ?''))" by code_simp
  have p: "spec_parse_id (PStr ''https://myanimelist.net/people/1868/M'') = Inr (PInt 1868)"
    by code_simp
  have f: "spec_from_record Person_reference (PDict [(''name'', PStr ''Miura, Kentarou''),
                    (''url'', PStr ''https://myanimelist.net/people/1868/M''),
                    (''id'', PInt 1868)])
     = Inr \<lparr>ref_kind = Person_reference, ref_id = PInt 1868, ref_relation = PNone\<rparr>"
    by code_simp
  note tM = first_author_resolved [of mal_helpers 2 ?M m pm, THEN conjunct1, THEN mp, OF M]
  note tN = first_author_resolved [of mal_helpers 2 ?N m pm, THEN conjunct2, THEN conjunct1]
  note tE = first_author_resolved [of mal_helpers 2 ?E m pm, THEN conjunct2, THEN conjunct2]
  from tM p f have 1:
    "m_author m = \<lparr>ref_kind = Person_reference, ref_id = PInt 1868, ref_relation = PNone\<rparr>"
    "m_raw_author m = PDict [(''name'', PStr ''Miura, Kentarou''),
                    (''url'', PStr ''https://myanimelist.net/people/1868/M''),
                    (''id'', PInt 1868)]"
    by (auto simp: field_def mal_helpers_def)
  from tN d have 2: "Manga_init mal_helpers 2 ?N = Inl (TypeError, ?N)"
    by (simp add: field_def)
  from tE d have 3: "Manga_init mal_helpers 2 ?E = Inl (IndexError, ?E)"
    by (simp add: field_def)
  from 1 2 3 M show ?thesis by (simp add: entity_of_def exception_of_def)
qed

section \<open>Animeography and mangaography\<close>

text \<open>
  C9.  A Character payload without \<^verbatim>\<open>animeography\<close> makes construction fail with
  TypeError (line 312 iterates None) and the payload as it was; one without
  \<^verbatim>\<open>mangaography\<close> makes it fail, with TypeError from line 319 unless the
  animeography loop has raised before.  A
  constructed Character has one reference per animeography record and one per
  mangaography record, in order, each built from the record with the id parsed from its
  \<^verbatim>\<open>url\<close> stored under \<^verbatim>\<open>id\<close>.
\<close>

theorem graphies_enriched_in_order:
  "(map_of payload ''animeography'' = None \<longrightarrow>
      Character_init h i payload = Inl (TypeError, payload)) \<and>
   (map_of payload ''mangaography'' = None \<longrightarrow>
      isl (Character_init h i payload) \<and>
      (\<not> isl (enrich_all h (PartialAnime_from_character h) (field payload ''animeography'')) \<longrightarrow>
         exception_of (Character_init h i payload) = Some TypeError)) \<and>
   (Character_init h i payload = Inr (c, pc) \<longrightarrow>
      list_all2 (\<lambda>r obj. \<exists>d url v. r = PDict d \<and> map_of d ''url'' = Some url \<and>
         parse_id h url = Inr v \<and>
         PartialAnime_from_character h (PDict (dict_set d ''id'' v)) = Inr obj)
        (elements (field payload ''animeography'')) (c_animeography c) \<and>
      list_all2 (\<lambda>r obj. \<exists>d url v. r = PDict d \<and> map_of d ''url'' = Some url \<and>
         parse_id h url = Inr v \<and>
         PartialManga_from_character h (PDict (dict_set d ''id'' v)) = Inr obj)
        (elements (field payload ''mangaography'')) (c_mangaography c))"
proof (intro conjI impI)
  assume "map_of payload ''animeography'' = None"
  then show "Character_init h i payload = Inl (TypeError, payload)"
    by (simp add: Character_init_eq field_absent enrich_all_None store_absent)
next
  assume "map_of payload ''mangaography'' = None"
  then show "isl (Character_init h i payload)"
    by (simp add: Character_init_eq field_absent enrich_all_None split: sum.splits)
next
  assume "map_of payload ''mangaography'' = None"
    and "\<not> isl (enrich_all h (PartialAnime_from_character h) (field payload ''animeography''))"
  then show "exception_of (Character_init h i payload) = Some TypeError"
    by (auto simp: Character_init_eq exception_of_def field_absent enrich_all_None
        split: sum.splits)
next
  assume ok: "Character_init h i payload = Inr (c, pc)"
  from enrich_all_result [OF Character_init_graphies(1) [OF ok]]
  show "list_all2 (\<lambda>r obj. \<exists>d url v. r = PDict d \<and> map_of d ''url'' = Some url \<and>
         parse_id h url = Inr v \<and>
         PartialAnime_from_character h (PDict (dict_set d ''id'' v)) = Inr obj)
        (elements (field payload ''animeography'')) (c_animeography c)"
    by blast
  from enrich_all_result [OF Character_init_graphies(2) [OF ok]]
  show "list_all2 (\<lambda>r obj. \<exists>d url v. r = PDict d \<and> map_of d ''url'' = Some url \<and>
         parse_id h url = Inr v \<and>
         PartialManga_from_character h (PDict (dict_set d ''id'' v)) = Inr obj)
        (elements (field payload ''mangaography'')) (c_mangaography c)"
    by blast
qed

theorem graphies_enriched_in_order_witness:
  "Character_init mal_helpers 422 [(''name'', PStr ''Guts''), (''mangaography'', PList [])]
     = Inl (TypeError, [(''name'', PStr ''Guts''), (''mangaography'', PList [])]) \<and>
   exception_of (Character_init mal_helpers 422
      [(''name'', PStr ''Guts''), (''animeography'', PList [])]) = Some TypeError \<and>
   map_option c_animeography (entity_of (Character_init mal_helpers 422
      [(''animeography'', PList [PDict [(''name'', PStr ''Berserk''),
          (''url'', PStr ''https://myanimelist.net/anime/33/Berserk'')]]),
       (''mangaography'', PList [PDict [(''name'', PStr ''Berserk''),
          (''url'', PStr ''https://myanimelist.net/manga/2/Berserk'')]])]))
     = Some [\<lparr>ref_kind = Anime_reference, ref_id = PInt 33, ref_relation = PNone\<rparr>] \<and>
   map_option c_mangaography (entity_of (Character_init mal_helpers 422
      [(''animeography'', PList [PDict [(''name'', PStr ''Berserk''),
          (''url'', PStr ''https://myanimelist.net/anime/33/Berserk'')]]),
       (''mangaography'', PList [PDict [(''name'', PStr ''Berserk''),
          (''url'', PStr ''https://myanimelist.net/manga/2/Berserk'')]])]))
     = Some [\<lparr>ref_kind = Manga_reference, ref_id = PInt 2, ref_relation = PNone\<rparr>]"
proof -
  let ?N = "[(''name'', PStr ''Guts''), (''mangaography'', PList [])]"
  let ?E = "[(''name'', PStr ''Guts''), (''animeography'', PList [])]"
  let ?C = "[(''animeography'', PList [PDict [(''name'', PStr ''Berserk''),
          (''url'', PStr ''https://myanimelist.net/anime/33/Berserk'')]]),
       (''mangaography'', PList [PDict [(''name'', PStr ''Berserk''),
          (''url'', PStr ''https://myanimelist.net/manga/2/Berserk'')]])]"
  have "\<not> isl (Character_init mal_helpers 422 ?C)" by code_simp
  then obtain c pc where C: "Character_init mal_helpers 422 ?C = Inr (c, pc)"
    by (rule returnsE)
  have e: "\<not> isl (enrich_all mal_helpers (PartialAnime_from_character mal_helpers) (PList []))"
    by (simp add: enrich_all_def py_iter_def rebuild_def)
  have pa: "spec_parse_id (PStr ''https://myanimelist.net/anime/33/Berserk'') = Inr (PInt 33)"
    by code_simp
  have pm: "spec_parse_id (PStr ''https://myanimelist.net/manga/2/Berserk'') = Inr (PInt 2)"
    by code_simp
  have fa: "spec_from_record Anime_reference (PDict [(''name'', PStr ''Berserk''),
          (''url'', PStr ''https://myanimelist.net/anime/33/Berserk''), (''id'', PInt 33)])
     = Inr \<lparr>ref_kind = Anime_reference, ref_id = PInt 33, ref_relation = PNone\<rparr>"
    by code_simp
  have fm: "spec_from_record Manga_reference (PDict [(''name'', PStr ''Berserk''),
          (''url'', PStr ''https://myanimelist.net/manga/2/Berserk''), (''id'', PInt 2)])
     = Inr \<lparr>ref_kind = Manga_reference, ref_id = PInt 2, ref_relation = PNone\<rparr>"
    by code_simp
  note tN = graphies_enriched_in_order [of ?N mal_helpers 422 c pc, THEN conjunct1]
  note tE = graphies_enriched_in_order [of ?E mal_helpers 422 c pc, THEN conjunct2,
      THEN conjunct1]
  note tC = graphies_enriched_in_order [of ?C mal_helpers 422 c pc, THEN conjunct2,
      THEN conjunct2, THEN mp, OF C]
  from tN have 1: "Character_init mal_helpers 422 ?N = Inl (TypeError, ?N)"
    by simp
  from tE e have 2: "exception_of (Character_init mal_helpers 422 ?E) = Some TypeError"
    by (simp add: field_def)
  from tC [THEN conjunct1] pa fa have 3: "c_animeography c
      = [\<lparr>ref_kind = Anime_reference, ref_id = PInt 33, ref_relation = PNone\<rparr>]"
    by (auto simp: field_def elements_def list_all2_Cons1 mal_helpers_def)
  from tC [THEN conjunct2] pm fm have 4: "c_mangaography c
      = [\<lparr>ref_kind = Manga_reference, ref_id = PInt 2, ref_relation = PNone\<rparr>]"
    by (auto simp: field_def elements_def list_all2_Cons1 mal_helpers_def)
  from 1 2 3 4 C show ?thesis by (simp add: entity_of_def)
qed

section \<open>A second construction from the same payload\<close>

lemma build_related_present:
  assumes "build_related h (field p k) = Inr rr"
  shows "map_of p k \<noteq> None"
proof -
  from build_related_result [of h "field p k" "fst rr" "snd rr"] assms
  have "field p k \<noteq> PNone" by auto
  then show ?thesis by (rule field_present)
qed

lemma enrich_all_present:
  assumes "enrich_all h mk (field p k) = Inr rr"
  shows "map_of p k \<noteq> None"
proof -
  from assms enrich_all_None [of h mk] have "field p k \<noteq> PNone" by auto
  then show ?thesis by (rule field_present)
qed

lemma resolve_author_present:
  assumes "resolve_author h (field p k) = Inr rr"
  shows "map_of p k \<noteq> None"
proof -
  from assms resolve_author_empty(1) [of h] have "field p k \<noteq> PNone" by auto
  then show ?thesis by (rule field_present)
qed

lemma Anime_init_again:
  assumes "Anime_init h i p = Inr (a, pa)"
  shows "Anime_init h i pa = Inr (a, pa)"
proof -
  from assms obtain se g rr where
    d: "date_range (field p ''aired_string'') = Inr se" and
    g: "genre_names (selected_genres p) = Inr g" and
    b: "build_related h (field p ''related'') = Inr rr"
    by (auto simp: Anime_init_eq split: if_splits sum.splits)
  note nc = Anime_init_related(3) [OF assms]
  from assms d g b nc have pa: "pa = store p ''related'' (fst rr)"
    by (simp add: Anime_init_eq)
  have nc': "\<not> clashes ''anime_id'' pa"
    by (simp add: pa clashes_store nc)
  have f: "field pa ''related'' = fst rr"
    by (simp add: pa field_store_same build_related_present [OF b])
  have b': "build_related h (fst rr) = Inr rr"
    using build_related_again [of h "field p ''related''" "fst rr" "snd rr"] b by simp
  have s: "store pa ''related'' (fst rr) = pa"
    by (rule store_same [OF f])
  have o: "\<And>k. k \<noteq> ''related'' \<Longrightarrow> field pa k = field p k"
    by (simp add: pa field_store_other)
  have sg: "selected_genres pa = selected_genres p"
    by (simp add: pa selected_genres_store)
  show ?thesis
    unfolding Anime_init_eq [of h i pa]
    using assms d g b b' s nc nc'
    by (simp add: Anime_init_eq [of h i p] f sg o)
qed

lemma Manga_init_again:
  assumes "Manga_init h i p = Inr (m, pm)"
  shows "Manga_init h i pm = Inr (m, pm)"
proof -
  from assms obtain se au g ser rr where
    d: "date_range (field p ''published_string'') = Inr se" and
    a: "resolve_author h (field p ''author'') = Inr au" and
    g: "genre_names (selected_genres p) = Inr g" and
    s0: "getitem_0 (field p ''serialization'') = Inr ser" and
    b: "build_related h (field p ''related'') = Inr rr"
    by (auto simp: Manga_init_eq split: if_splits sum.splits)
  note nc = Manga_init_related(3) [OF assms]
  from assms d a g s0 b nc have
    pm: "pm = store (store p ''author'' (fst au)) ''related'' (fst rr)"
    by (simp add: Manga_init_eq)
  have nc': "\<not> clashes ''manga_id'' pm"
    by (simp add: pm clashes_store nc)
  have fa: "field pm ''author'' = fst au"
    by (simp add: pm field_store_other field_store_same resolve_author_present [OF a])
  have fr: "field pm ''related'' = fst rr"
    by (simp add: pm field_store_same map_of_store build_related_present [OF b])
  have a': "resolve_author h (fst au) = Inr au"
    using resolve_author_again [of h "field p ''author''" "fst au" "fst (snd au)" "snd (snd au)"] a
    by simp
  have b': "build_related h (fst rr) = Inr rr"
    using build_related_again [of h "field p ''related''" "fst rr" "snd rr"] b by simp
  have s: "store (store pm ''author'' (fst au)) ''related'' (fst rr) = pm"
    by (simp add: store_same [OF fa] store_same [OF fr])
  have o: "\<And>k. k \<noteq> ''related'' \<Longrightarrow> k \<noteq> ''author'' \<Longrightarrow> field pm k = field p k"
    by (simp add: pm field_store_other)
  have sg: "selected_genres pm = selected_genres p"
    by (simp add: pm selected_genres_store)
  show ?thesis
    unfolding Manga_init_eq [of h i pm]
    using assms d a g s0 b a' b' s nc nc'
    by (simp add: Manga_init_eq [of h i p] fa fr sg o)
qed

lemma Character_init_again:
  assumes "Character_init h i p = Inr (c, pc)"
  shows "Character_init h i pc = Inr (c, pc)"
proof -
  from assms obtain an mn where
    a: "enrich_all h (PartialAnime_from_character h) (field p ''animeography'') = Inr an" and
    m: "enrich_all h (PartialManga_from_character h) (field p ''mangaography'') = Inr mn"
    by (auto simp: Character_init_eq split: if_splits sum.splits)
  note nc = Character_init_graphies(4) [OF assms]
  from assms a m nc have
    pc: "pc = store (store p ''animeography'' (fst an)) ''mangaography'' (fst mn)"
    by (simp add: Character_init_eq)
  have nc': "\<not> clashes ''char_id'' pc"
    by (simp add: pc clashes_store nc)
  have fa: "field pc ''animeography'' = fst an"
    by (simp add: pc field_store_other field_store_same enrich_all_present [OF a])
  have fm: "field pc ''mangaography'' = fst mn"
    by (simp add: pc field_store_same map_of_store enrich_all_present [OF m])
  have a': "enrich_all h (PartialAnime_from_character h) (fst an) = Inr an"
    using enrich_all_again [of h _ "field p ''animeography''" "fst an" "snd an"] a by simp
  have m': "enrich_all h (PartialManga_from_character h) (fst mn) = Inr mn"
    using enrich_all_again [of h _ "field p ''mangaography''" "fst mn" "snd mn"] m by simp
  have s: "store (store pc ''animeography'' (fst an)) ''mangaography'' (fst mn) = pc"
    by (simp add: store_same [OF fa] store_same [OF fm])
  have o: "\<And>k. k \<noteq> ''animeography'' \<Longrightarrow> k \<noteq> ''mangaography'' \<Longrightarrow> field pc k = field p k"
    by (simp add: pc field_store_other)
  show ?thesis
    unfolding Character_init_eq [of h i pc]
    using assms a m a' m' s nc nc'
    by (simp add: Character_init_eq [of h i p] fa fm o)
qed

text \<open>
  C8.  The only state two constructions share is the payload, which the first one has
  changed.  Constructing the same kind of entity again, with the same ID, from the
  payload as the first construction left it, succeeds with the same attribute values
  and leaves the payload as it is.  (From an equal payload the result is the same
  because a construction is a function of the helpers, the ID and the payload.)
\<close>

theorem construction_repeatable:
  "(Anime_init h i payload = Inr (a, pa) \<longrightarrow> Anime_init h i pa = Inr (a, pa)) \<and>
   (Manga_init h i payload = Inr (m, pm) \<longrightarrow> Manga_init h i pm = Inr (m, pm)) \<and>
   (Character_init h i payload = Inr (c, pc) \<longrightarrow> Character_init h i pc = Inr (c, pc)) \<and>
   (Person_init i payload = Inr (x, pp) \<longrightarrow> Person_init i pp = Inr (x, pp))"
  using Anime_init_again Manga_init_again Character_init_again
  by (auto simp: Person_init_eq split: if_splits)

theorem construction_repeatable_witness:
  "\<not> isl (Anime_init mal_helpers 1
      [(''aired_string'', PStr ''Apr 3, 2020 to ?''),
       (''related'', PDict [(''Sequel'', PList [PDict [(''type'', PStr ''anime''),
          (''url'', PStr ''https://myanimelist.net/anime/5/Name'')]])])]) \<and>
   payload_after (Anime_init mal_helpers 1
      [(''aired_string'', PStr ''Apr 3, 2020 to ?''),
       (''related'', PDict [(''Sequel'', PList [PDict [(''type'', PStr ''anime''),
          (''url'', PStr ''https://myanimelist.net/anime/5/Name'')]])])])
     = [(''aired_string'', PStr ''Apr 3, 2020 to ?''),
       (''related'', PDict [(''Sequel'', PList [PDict [(''type'', PStr ''anime''),
          (''url'', PStr ''https://myanimelist.net/anime/5/Name''),
          (''relation'', PStr ''Sequel'')]])])] \<and>
   entity_of (Anime_init mal_helpers 1
      [(''aired_string'', PStr ''Apr 3, 2020 to ?''),
       (''related'', PDict [(''Sequel'', PList [PDict [(''type'', PStr ''anime''),
          (''url'', PStr ''https://myanimelist.net/anime/5/Name''),
          (''relation'', PStr ''Sequel'')]])])])
     = entity_of (Anime_init mal_helpers 1
      [(''aired_string'', PStr ''Apr 3, 2020 to ?''),
       (''related'', PDict [(''Sequel'', PList [PDict [(''type'', PStr ''anime''),
          (''url'', PStr ''https://myanimelist.net/anime/5/Name'')]])])]) \<and>
   \<not> isl (Manga_init mal_helpers 2
      [(''published_string'', PStr ''Aug 25, 1989 to ?''),
       (''author'', PList [PDict [(''url'', PStr ''https://myanimelist.net/people/1868/M'')]]),
       (''serialization'', PList [PStr ''Young Animal'']),
       (''related'', PDict [])]) \<and>
   Manga_init mal_helpers 2
      [(''published_string'', PStr ''Aug 25, 1989 to ?''),
       (''author'', PList [PDict [(''url'', PStr ''https://myanimelist.net/people/1868/M''),
                                  (''id'', PInt 1868)]]),
       (''serialization'', PList [PStr ''Young Animal'']),
       (''related'', PDict [])]
     = Manga_init mal_helpers 2
      [(''published_string'', PStr ''Aug 25, 1989 to ?''),
       (''author'', PList [PDict [(''url'', PStr ''https://myanimelist.net/people/1868/M'')]]),
       (''serialization'', PList [PStr ''Young Animal'']),
       (''related'', PDict [])] \<and>
   \<not> isl (Character_init mal_helpers 422
      [(''animeography'', PList [PDict [(''url'', PStr ''https://myanimelist.net/anime/33/B'')]]),
       (''mangaography'', PList [])]) \<and>
   Character_init mal_helpers 422
      [(''animeography'', PList [PDict [(''url'', PStr ''https://myanimelist.net/anime/33/B''),
                                        (''id'', PInt 33)]]),
       (''mangaography'', PList [])]
     = Character_init mal_helpers 422
      [(''animeography'', PList [PDict [(''url'', PStr ''https://myanimelist.net/anime/33/B'')]]),
       (''mangaography'', PList [])] \<and>
   Person_init 4 [(''name'', PStr ''Kentarou Miura'')]
     = Inr (\<lparr>p_id = 4, p_link = PNone, p_name = PStr ''Kentarou Miura'', p_image = PNone,
             p_favorites = PNone, p_anime = PNone, p_manga = PNone, p_birthday = PNone,
             p_more = PNone, p_website = PNone, p_voice_acting = PNone\<rparr>,
            [(''name'', PStr ''Kentarou Miura'')])"
proof -
  let ?A = "[(''aired_string'', PStr ''Apr 3, 2020 to ?''),
       (''related'', PDict [(''Sequel'', PList [PDict [(''type'', PStr ''anime''),
          (''url'', PStr ''https://myanimelist.net/anime/5/Name'')]])])]"
  let ?A' = "[(''aired_string'', PStr ''Apr 3, 2020 to ?''),
       (''related'', PDict [(''Sequel'', PList [PDict [(''type'', PStr ''anime''),
          (''url'', PStr ''https://myanimelist.net/anime/5/Name''),
          (''relation'', PStr ''Sequel'')]])])]"
  let ?M = "[(''published_string'', PStr ''Aug 25, 1989 to ?''),
       (''author'', PList [PDict [(''url'', PStr ''https://myanimelist.net/people/1868/M'')]]),
       (''serialization'', PList [PStr ''Young Animal'']),
       (''related'', PDict [])]"
  let ?M' = "[(''published_string'', PStr ''Aug 25, 1989 to ?''),
       (''author'', PList [PDict [(''url'', PStr ''https://myanimelist.net/people/1868/M''),
                                  (''id'', PInt 1868)]]),
       (''serialization'', PList [PStr ''Young Animal'']),
       (''related'', PDict [])]"
  let ?C = "[(''animeography'',
        PList [PDict [(''url'', PStr ''https://myanimelist.net/anime/33/B'')]]),
       (''mangaography'', PList [])]"
  let ?C' = "[(''animeography'',
        PList [PDict [(''url'', PStr ''https://myanimelist.net/anime/33/B''),
                      (''id'', PInt 33)]]),
       (''mangaography'', PList [])]"
  let ?P = "[(''name'', PStr ''Kentarou Miura'')]"
  have okA: "\<not> isl (Anime_init mal_helpers 1 ?A)" by code_simp
  have okM: "\<not> isl (Manga_init mal_helpers 2 ?M)" by code_simp
  have okC: "\<not> isl (Character_init mal_helpers 422 ?C)" by code_simp
  have okP: "\<not> isl (Person_init 4 ?P)" by code_simp
  have pA: "payload_after (Anime_init mal_helpers 1 ?A) = ?A'" by code_simp
  have pM: "payload_after (Manga_init mal_helpers 2 ?M) = ?M'" by code_simp
  have pC: "payload_after (Character_init mal_helpers 422 ?C) = ?C'" by code_simp
  have pP: "payload_after (Person_init 4 ?P) = ?P" by code_simp
  from okA pA obtain a where A: "Anime_init mal_helpers 1 ?A = Inr (a, ?A')"
    by (cases "Anime_init mal_helpers 1 ?A") (auto simp: payload_after_def)
  from okM pM obtain m where M: "Manga_init mal_helpers 2 ?M = Inr (m, ?M')"
    by (cases "Manga_init mal_helpers 2 ?M") (auto simp: payload_after_def)
  from okC pC obtain c where C: "Character_init mal_helpers 422 ?C = Inr (c, ?C')"
    by (cases "Character_init mal_helpers 422 ?C") (auto simp: payload_after_def)
  from okP pP obtain x where P: "Person_init 4 ?P = Inr (x, ?P)"
    by (cases "Person_init 4 ?P") (auto simp: payload_after_def)
  note tA = construction_repeatable
    [of mal_helpers 1 ?A a ?A' m ?M' c ?C' x ?P, THEN conjunct1, THEN mp, OF A]
  note tM = construction_repeatable
    [of mal_helpers 2 ?M a ?A' m ?M' c ?C' x ?P, THEN conjunct2, THEN conjunct1, THEN mp, OF M]
  note tC = construction_repeatable
    [of mal_helpers 422 ?C a ?A' m ?M' c ?C' x ?P, THEN conjunct2, THEN conjunct2,
      THEN conjunct1, THEN mp, OF C]
  note tP = construction_repeatable
    [of mal_helpers 4 ?P a ?A' m ?M' c ?C' x ?P, THEN conjunct2, THEN conjunct2,
      THEN conjunct2, THEN mp, OF P]
  have xP: "p_name x = PStr ''Kentarou Miura''" "Person_init 4 ?P = Inr
     (\<lparr>p_id = 4, p_link = PNone, p_name = PStr ''Kentarou Miura'', p_image = PNone,
       p_favorites = PNone, p_anime = PNone, p_manga = PNone, p_birthday = PNone,
       p_more = PNone, p_website = PNone, p_voice_acting = PNone\<rparr>, ?P)"
    using P tP by (auto simp: Person_init_eq field_def split: if_splits)
  from okA pA tA A M tM C tC xP show ?thesis
    by (simp add: entity_of_def)
qed

section \<open>What construction changes in the payload\<close>














end
